theory Spec2Isabelle
  imports Main "HOL-Library.Sublist"
begin

section \<open>Errors (package utils)\<close>

text \<open>
  \<^verbatim>\<open>utils.Error\<close> is a struct with a message and a code; the service tests
  \<^verbatim>\<open>err.Code != ""\<close> and returns \<^verbatim>\<open>utils.Error{}\<close>, the zero value, on
  success.
\<close>

record Error =
  Message :: string
  Code :: string

definition NoError :: Error where
  "NoError = \<lparr>Message = [], Code = []\<rparr>"

text \<open>
  Modelled from the spec: \<^verbatim>\<open>utils.NewError\<close>, \<^verbatim>\<open>utils.NewErrorCode\<close>,
  \<^verbatim>\<open>utils.DatabaseErrorCode\<close> and \<^verbatim>\<open>utils.VacancyErrorType\<close> are not in src/.
  The spec describes an error value built from string parts: a category
  (here "database"), an entity tag ("vacancy") and a short numeric code. The
  code string is the three parts in that order, joined by a dash.
\<close>

definition DatabaseErrorCode :: string where
  "DatabaseErrorCode = ''database''"

definition VacancyErrorType :: string where
  "VacancyErrorType = ''vacancy''"

definition NewErrorCode :: "string \<Rightarrow> string \<Rightarrow> string \<Rightarrow> string" where
  "NewErrorCode category entity code = category @ ''-'' @ entity @ ''-'' @ code"

definition NewError :: "string \<Rightarrow> string \<Rightarrow> Error" where
  "NewError message errorCode = \<lparr>Message = message, Code = errorCode\<rparr>"

text \<open>\<^verbatim>\<open>vacancyServiceError\<close>, vacancy\_service.go lines 45-49.\<close>

definition vacancyServiceError :: "string \<Rightarrow> string \<Rightarrow> Error" where
  "vacancyServiceError message code =
     (let errorCode = NewErrorCode DatabaseErrorCode VacancyErrorType code
      in NewError message errorCode)"


section \<open>Data model (package model/vacancy)\<close>

text \<open>
  Modelled from the spec: the package \<^verbatim>\<open>model/vacancy\<close> is not in src/. The
  records below carry what section 3 of the spec lists: a vacancy has an
  identity, a company reference, a contract type, an area and searchable
  text; a skill, requirement or responsibility is a text with a vacancy
  reference; a join row references a vacancy and a disability, and is read
  back with the referenced disability (which has a category) attached. The
  service itself reads only \<open>Id\<close> of a vacancy, sets the vacancy reference
  of each child row, and reads the category of an attached disability.
\<close>

record Vacancy =
  Id :: int
  CompanyId :: int
  ContractType :: string
  Area :: string
  Description :: string

record Skill =
  skill_Name :: string
  skill_VacancyId :: int

record Requirement =
  requirement_Name :: string
  requirement_VacancyId :: int

record Responsability =
  responsability_Name :: string
  responsability_VacancyId :: int

record Disability =
  disability_Id :: int
  Category :: string

record VacancyDisability =
  VacancyId :: int
  DisabilityId :: int
  Disability :: Disability

definition zeroDisability :: Disability where
  "zeroDisability = \<lparr>disability_Id = 0, Category = []\<rparr>"

definition zeroVacancy :: Vacancy where
  "zeroVacancy = \<lparr>Id = 0, CompanyId = 0, ContractType = [], Area = [], Description = []\<rparr>"

text \<open>Request shapes. The request has no identity: update takes the id apart.\<close>

record SkillRequest =
  skillRequest_Name :: string

record RequirementRequest =
  requirementRequest_Name :: string

record ResponsabilityRequest =
  responsabilityRequest_Name :: string

record VacancyRequest =
  request_CompanyId :: int
  request_ContractType :: string
  request_Area :: string
  request_Description :: string
  Skills :: "SkillRequest list"
  Requirements :: "RequirementRequest list"
  Responsabilities :: "ResponsabilityRequest list"
  Disabilities :: "int list"

text \<open>
  Modelled from the spec: the \<^verbatim>\<open>ToModel\<close> methods are not in src/. Each converts
  a request to a storage record; fields the request does not have keep Go's
  zero value.
\<close>

definition VacancyRequest_ToModel :: "VacancyRequest \<Rightarrow> Vacancy" where
  "VacancyRequest_ToModel r =
     \<lparr>Id = 0, CompanyId = request_CompanyId r, ContractType = request_ContractType r,
      Area = request_Area r, Description = request_Description r\<rparr>"

definition SkillRequest_ToModel :: "SkillRequest \<Rightarrow> Skill" where
  "SkillRequest_ToModel r = \<lparr>skill_Name = skillRequest_Name r, skill_VacancyId = 0\<rparr>"

definition RequirementRequest_ToModel :: "RequirementRequest \<Rightarrow> Requirement" where
  "RequirementRequest_ToModel r =
     \<lparr>requirement_Name = requirementRequest_Name r, requirement_VacancyId = 0\<rparr>"

definition ResponsabilityRequest_ToModel :: "ResponsabilityRequest \<Rightarrow> Responsability" where
  "ResponsabilityRequest_ToModel r =
     \<lparr>responsability_Name = responsabilityRequest_Name r, responsability_VacancyId = 0\<rparr>"

text \<open>
  Modelled from the spec: \<^verbatim>\<open>ToSimpleResponse\<close> and \<^verbatim>\<open>ToResponse\<close> are not in
  src/. A summary is formed from the vacancy row and the list of category
  names; a full response from the vacancy row and its four collections.
\<close>

record VacancySimpleResponse =
  simple_Vacancy :: Vacancy
  simple_Disabilities :: "string list"

record VacancyResponse =
  response_Vacancy :: Vacancy
  response_Disabilities :: "string list"
  response_Skills :: "Skill list"
  response_Responsabilities :: "Responsability list"
  response_Requirements :: "Requirement list"

definition ToSimpleResponse :: "Vacancy \<Rightarrow> string list \<Rightarrow> VacancySimpleResponse" where
  "ToSimpleResponse v disabilities =
     \<lparr>simple_Vacancy = v, simple_Disabilities = disabilities\<rparr>"

definition ToResponse ::
  "Vacancy \<Rightarrow> string list \<Rightarrow> Skill list \<Rightarrow> Responsability list \<Rightarrow> Requirement list
   \<Rightarrow> VacancyResponse" where
  "ToResponse v disabilities skills responsabilities requirements =
     \<lparr>response_Vacancy = v, response_Disabilities = disabilities, response_Skills = skills,
      response_Responsabilities = responsabilities, response_Requirements = requirements\<rparr>"


section \<open>Repository interfaces (package repo/vacancy)\<close>

text \<open>
  The service holds five repositories behind Go interfaces, so the model
  takes them as records of functions over a store \<open>'db\<close>. A write takes the
  store of the running transaction and returns the new one; a read takes
  the store and returns a value and an error, as the Go methods do. The
  first result of the three \<^verbatim>\<open>Create\<close> methods is discarded by their only
  caller and is left out. A Go \<^verbatim>\<open>error\<close> is \<open>Error option\<close>, \<open>None\<close> for nil.
\<close>

record 'db VacancyRepo =
  BeginTransaction :: "('db \<Rightarrow> Error option \<times> 'db) \<Rightarrow> 'db \<Rightarrow> Error option \<times> 'db"
  UpsertVacancy :: "Vacancy \<Rightarrow> 'db \<Rightarrow> (int \<times> Error) \<times> 'db"
  repo_ListVacancies ::
    "'db \<Rightarrow> int \<Rightarrow> int \<Rightarrow> int \<Rightarrow> string \<Rightarrow> string \<Rightarrow> string \<Rightarrow> string \<Rightarrow> Vacancy list \<times> Error"
  repo_GetVacancyById :: "'db \<Rightarrow> int \<Rightarrow> Vacancy \<times> Error"

record 'db SkillsRepo =
  CreateSkill :: "Skill \<Rightarrow> 'db \<Rightarrow> Error \<times> 'db"
  ListSkillsByVacancyId :: "'db \<Rightarrow> int \<Rightarrow> Skill list \<times> Error"

record 'db RequirementsRepo =
  CreateRequirement :: "Requirement \<Rightarrow> 'db \<Rightarrow> Error \<times> 'db"
  ListRequirementsByVacancyId :: "'db \<Rightarrow> int \<Rightarrow> Requirement list \<times> Error"

record 'db ResponsabilitiesRepo =
  CreateResponsability :: "Responsability \<Rightarrow> 'db \<Rightarrow> Error \<times> 'db"
  ListResponsabilitiesByVacancyId :: "'db \<Rightarrow> int \<Rightarrow> Responsability list \<times> Error"

record 'db VacancyDisabilityRepo =
  UpsertVacancyDisability :: "VacancyDisability \<Rightarrow> 'db \<Rightarrow> Error \<times> 'db"
  GetVacancyDisabilities :: "'db \<Rightarrow> int \<Rightarrow> VacancyDisability list \<times> Error"

record 'db vacancyService =
  vacancyRepo :: "'db VacancyRepo"
  skillsRepo :: "'db SkillsRepo"
  requirementsRepo :: "'db RequirementsRepo"
  responsabilitiesRepo :: "'db ResponsabilitiesRepo"
  vacancyDisabilitiesRepo :: "'db VacancyDisabilityRepo"


section \<open>The vacancy service (vacancy\_service.go)\<close>

subsection \<open>CreateVacancy, lines 51-110\<close>

text \<open>The four loops of the transaction body; each stops at the first failing call.\<close>

fun createSkills ::
  "'db vacancyService \<Rightarrow> int \<Rightarrow> SkillRequest list \<Rightarrow> 'db \<Rightarrow> Error option \<times> 'db" where
  "createSkills v vacancyId [] tx = (None, tx)"
| "createSkills v vacancyId (skill # rest) tx =
     (let skillModel = (SkillRequest_ToModel skill)\<lparr>skill_VacancyId := vacancyId\<rparr>;
          (err, tx') = CreateSkill (skillsRepo v) skillModel tx
      in if Code err \<noteq> [] then (Some err, tx')
         else createSkills v vacancyId rest tx')"

fun createRequirements ::
  "'db vacancyService \<Rightarrow> int \<Rightarrow> RequirementRequest list \<Rightarrow> 'db \<Rightarrow> Error option \<times> 'db" where
  "createRequirements v vacancyId [] tx = (None, tx)"
| "createRequirements v vacancyId (requirement # rest) tx =
     (let requirementModel =
            (RequirementRequest_ToModel requirement)\<lparr>requirement_VacancyId := vacancyId\<rparr>;
          (err, tx') = CreateRequirement (requirementsRepo v) requirementModel tx
      in if Code err \<noteq> [] then (Some err, tx')
         else createRequirements v vacancyId rest tx')"

fun createResponsabilities ::
  "'db vacancyService \<Rightarrow> int \<Rightarrow> ResponsabilityRequest list \<Rightarrow> 'db \<Rightarrow> Error option \<times> 'db" where
  "createResponsabilities v vacancyId [] tx = (None, tx)"
| "createResponsabilities v vacancyId (responsability # rest) tx =
     (let responsabilityModel =
            (ResponsabilityRequest_ToModel responsability)
              \<lparr>responsability_VacancyId := vacancyId\<rparr>;
          (err, tx') = CreateResponsability (responsabilitiesRepo v) responsabilityModel tx
      in if Code err \<noteq> [] then (Some err, tx')
         else createResponsabilities v vacancyId rest tx')"

fun createDisabilities ::
  "'db vacancyService \<Rightarrow> int \<Rightarrow> int list \<Rightarrow> 'db \<Rightarrow> Error option \<times> 'db" where
  "createDisabilities v vacancyId [] tx = (None, tx)"
| "createDisabilities v vacancyId (disability # rest) tx =
     (let disabilityModel =
            \<lparr>VacancyId = vacancyId, DisabilityId = disability, Disability = zeroDisability\<rparr>;
          (err, tx') = UpsertVacancyDisability (vacancyDisabilitiesRepo v) disabilityModel tx
      in if Code err \<noteq> [] then (Some err, tx')
         else createDisabilities v vacancyId rest tx')"

text \<open>The function passed to \<^verbatim>\<open>BeginTransaction\<close>, lines 54-103.\<close>

definition createVacancyTx ::
  "'db vacancyService \<Rightarrow> VacancyRequest \<Rightarrow> Vacancy \<Rightarrow> 'db \<Rightarrow> Error option \<times> 'db" where
  "createVacancyTx v vacancy vacancyModel tx =
     (let ((vacancyId, err), tx1) = UpsertVacancy (vacancyRepo v) vacancyModel tx
      in if Code err \<noteq> [] then (Some err, tx1)
         else case createSkills v vacancyId (Skills vacancy) tx1 of
           (Some e, tx2) \<Rightarrow> (Some e, tx2)
         | (None, tx2) \<Rightarrow>
         (case createRequirements v vacancyId (Requirements vacancy) tx2 of
           (Some e, tx3) \<Rightarrow> (Some e, tx3)
         | (None, tx3) \<Rightarrow>
         (case createResponsabilities v vacancyId (Responsabilities vacancy) tx3 of
           (Some e, tx4) \<Rightarrow> (Some e, tx4)
         | (None, tx4) \<Rightarrow> createDisabilities v vacancyId (Disabilities vacancy) tx4)))"

definition CreateVacancy :: "'db vacancyService \<Rightarrow> VacancyRequest \<Rightarrow> 'db \<Rightarrow> Error \<times> 'db" where
  "CreateVacancy v vacancy db =
     (let vacancyModel = VacancyRequest_ToModel vacancy;
          (errTx, db') = BeginTransaction (vacancyRepo v) (createVacancyTx v vacancy vacancyModel) db
      in if errTx \<noteq> None
         then (vacancyServiceError ''failed to create the vacancy'' ''01'', db')
         else (NoError, db'))"

subsection \<open>ListVacancies, lines 112-144\<close>

text \<open>
  The inner loop, lines 128-134: \<^verbatim>\<open>slices.Contains\<close> compares strings with
  \<^verbatim>\<open>==\<close>.
\<close>

fun uniqueDisabilitiesLoop :: "string list \<Rightarrow> VacancyDisability list \<Rightarrow> string list" where
  "uniqueDisabilitiesLoop uniqueDisabilities [] = uniqueDisabilities"
| "uniqueDisabilitiesLoop uniqueDisabilities (vacancyDisability # rest) =
     (if Category (Disability vacancyDisability) \<in> set uniqueDisabilities
      then uniqueDisabilitiesLoop uniqueDisabilities rest
      else uniqueDisabilitiesLoop
             (uniqueDisabilities @ [Category (Disability vacancyDisability)]) rest)"

text \<open>The outer loop, lines 120-141; a failure is \<open>Inl\<close>, the list is \<open>Inr\<close>.\<close>

fun listVacanciesLoop ::
  "'db vacancyService \<Rightarrow> 'db \<Rightarrow> string \<Rightarrow> VacancySimpleResponse list \<Rightarrow> Vacancy list
   \<Rightarrow> Error + VacancySimpleResponse list" where
  "listVacanciesLoop v db disabilityCategory vacanciesResponse [] = Inr vacanciesResponse"
| "listVacanciesLoop v db disabilityCategory vacanciesResponse (vacancy # rest) =
     (let (vacancyDisabilities, err) =
            GetVacancyDisabilities (vacancyDisabilitiesRepo v) db (Id vacancy)
      in if Code err \<noteq> []
         then Inl (vacancyServiceError ''failed to get the disabilities'' ''03'')
         else let uniqueDisabilities = uniqueDisabilitiesLoop [] vacancyDisabilities
              in if disabilityCategory \<noteq> [] \<and> disabilityCategory \<notin> set uniqueDisabilities
                 then listVacanciesLoop v db disabilityCategory vacanciesResponse rest
                 else listVacanciesLoop v db disabilityCategory
                        (vacanciesResponse @ [ToSimpleResponse vacancy uniqueDisabilities])
                        rest)"

definition ListVacancies ::
  "'db vacancyService \<Rightarrow> 'db \<Rightarrow> int \<Rightarrow> int \<Rightarrow> int \<Rightarrow> string \<Rightarrow> string \<Rightarrow> string \<Rightarrow> string
   \<Rightarrow> Error + VacancySimpleResponse list" where
  "ListVacancies v db page perPage companyId disabilityCategory area contractType searchText =
     (let (vacancies, err) =
            repo_ListVacancies (vacancyRepo v) db page perPage companyId disabilityCategory
              area contractType searchText
      in if Code err \<noteq> []
         then Inl (vacancyServiceError ''failed to list the vacancies'' ''02'')
         else listVacanciesLoop v db disabilityCategory [] vacancies)"

subsection \<open>GetVacancyById, lines 146-183\<close>

definition GetVacancyById :: "'db vacancyService \<Rightarrow> 'db \<Rightarrow> int \<Rightarrow> Error + VacancyResponse" where
  "GetVacancyById v db id' =
     (let (vacancy, err) = repo_GetVacancyById (vacancyRepo v) db id'
      in if Code err \<noteq> [] then Inl (vacancyServiceError ''failed to get the vacancy'' ''03'')
      else let (skills, err) = ListSkillsByVacancyId (skillsRepo v) db id'
      in if Code err \<noteq> [] then Inl (vacancyServiceError ''failed to get the skills'' ''04'')
      else let (requirements, err) = ListRequirementsByVacancyId (requirementsRepo v) db id'
      in if Code err \<noteq> []
         then Inl (vacancyServiceError ''failed to get the requirements'' ''05'')
      else let (responsabilities, err) =
                 ListResponsabilitiesByVacancyId (responsabilitiesRepo v) db id'
      in if Code err \<noteq> []
         then Inl (vacancyServiceError ''failed to get the responsabilities'' ''06'')
      else let (vacancyDisabilities, err) =
                 GetVacancyDisabilities (vacancyDisabilitiesRepo v) db id'
      in if Code err \<noteq> []
         then Inl (vacancyServiceError ''failed to get the disabilities'' ''07'')
      else let disabilities = map (\<lambda>vacancyDisability. Category (Disability vacancyDisability))
                                vacancyDisabilities
      in Inr (ToResponse vacancy disabilities skills responsabilities requirements))"

subsection \<open>UpdateVacancy and DeleteVacancy, lines 185-219\<close>

text \<open>The function both pass to \<^verbatim>\<open>BeginTransaction\<close>: one lookup, nothing written.\<close>

definition existsVacancyTx :: "'db vacancyService \<Rightarrow> int \<Rightarrow> 'db \<Rightarrow> Error option \<times> 'db" where
  "existsVacancyTx v id' tx =
     (let (_, err) = repo_GetVacancyById (vacancyRepo v) tx id'
      in if Code err \<noteq> [] then (Some err, tx) else (None, tx))"

definition UpdateVacancy ::
  "'db vacancyService \<Rightarrow> VacancyRequest \<Rightarrow> int \<Rightarrow> 'db \<Rightarrow> Error \<times> 'db" where
  "UpdateVacancy v vacancy id' db =
     (let (errTx, db') = BeginTransaction (vacancyRepo v) (existsVacancyTx v id') db
      in if errTx \<noteq> None
         then (vacancyServiceError ''failed to update the vacancy'' ''08'', db')
         else (NoError, db'))"

definition DeleteVacancy :: "'db vacancyService \<Rightarrow> int \<Rightarrow> 'db \<Rightarrow> Error \<times> 'db" where
  "DeleteVacancy v id' db =
     (let (errTx, db') = BeginTransaction (vacancyRepo v) (existsVacancyTx v id') db
      in if errTx \<noteq> None
         then (vacancyServiceError ''failed to delete the vacancy'' ''09'', db')
         else (NoError, db'))"


section \<open>An in-memory storage layer\<close>

text \<open>
  Modelled from the spec: the repositories behind the five interfaces (the
  ORM-backed package \<^verbatim>\<open>repo/vacancy\<close>) are not in src/. The spec gives one
  table per entity, rows with auto-incrementing identifiers, an upsert keyed
  by identity, join rows created idempotently, reads that return the rows of
  one vacancy, a storage query that filters and paginates without looking at
  the disability category, and a transaction that commits when its function
  returns nil and rolls back otherwise. Tables are lists in insertion order.
\<close>

record Store =
  vacancies :: "Vacancy list"
  skills :: "Skill list"
  requirements :: "Requirement list"
  responsabilities :: "Responsability list"
  vacancy_disabilities :: "VacancyDisability list"
  disabilities :: "Disability list"

text \<open>
  Any repository call can fail for a reason outside the service (connection,
  constraint): the set of failing calls is a parameter of the storage layer.
\<close>

datatype RepoCall =
  CallUpsertVacancy | CallListVacancies | CallGetVacancyById
| CallCreateSkill | CallListSkillsByVacancyId
| CallCreateRequirement | CallListRequirementsByVacancyId
| CallCreateResponsability | CallListResponsabilitiesByVacancyId
| CallUpsertVacancyDisability | CallGetVacancyDisabilities

definition RepoFailure :: Error where
  "RepoFailure = \<lparr>Message = ''repository call failed'', Code = ''repository''\<rparr>"

definition transaction :: "('db \<Rightarrow> Error option \<times> 'db) \<Rightarrow> 'db \<Rightarrow> Error option \<times> 'db" where
  "transaction fn db =
     (case fn db of (None, tx) \<Rightarrow> (None, tx) | (Some e, tx) \<Rightarrow> (Some e, db))"

definition nextVacancyId :: "Store \<Rightarrow> int" where
  "nextVacancyId db = fold max (map Id (vacancies db)) 0 + 1"

definition mem_UpsertVacancy ::
  "(RepoCall \<Rightarrow> bool) \<Rightarrow> Vacancy \<Rightarrow> Store \<Rightarrow> (int \<times> Error) \<times> Store" where
  "mem_UpsertVacancy faults v db =
     (if faults CallUpsertVacancy then ((0, RepoFailure), db)
      else if Id v = 0
      then (let i = nextVacancyId db
            in ((i, NoError), db\<lparr>vacancies := vacancies db @ [v\<lparr>Id := i\<rparr>]\<rparr>))
      else if Id v \<in> set (map Id (vacancies db))
      then ((Id v, NoError),
            db\<lparr>vacancies := map (\<lambda>r. if Id r = Id v then v else r) (vacancies db)\<rparr>)
      else ((Id v, NoError), db\<lparr>vacancies := vacancies db @ [v]\<rparr>))"

definition paginate :: "int \<Rightarrow> int \<Rightarrow> 'a list \<Rightarrow> 'a list" where
  "paginate page perPage rows = take (nat perPage) (drop (nat ((page - 1) * perPage)) rows)"

text \<open>
  The storage query: \<open>query\<close> is its filter on company, area, contract type
  and search text, which the spec does not detail; the disability category
  is not part of it.
\<close>

definition mem_ListVacancies ::
  "(RepoCall \<Rightarrow> bool) \<Rightarrow> (int \<Rightarrow> string \<Rightarrow> string \<Rightarrow> string \<Rightarrow> Vacancy \<Rightarrow> bool) \<Rightarrow> Store
   \<Rightarrow> int \<Rightarrow> int \<Rightarrow> int \<Rightarrow> string \<Rightarrow> string \<Rightarrow> string \<Rightarrow> string \<Rightarrow> Vacancy list \<times> Error" where
  "mem_ListVacancies faults query db page perPage companyId disabilityCategory area
     contractType searchText =
     (if faults CallListVacancies then ([], RepoFailure)
      else (paginate page perPage
              (filter (query companyId area contractType searchText) (vacancies db)),
            NoError))"

definition mem_GetVacancyById :: "(RepoCall \<Rightarrow> bool) \<Rightarrow> Store \<Rightarrow> int \<Rightarrow> Vacancy \<times> Error" where
  "mem_GetVacancyById faults db id' =
     (if faults CallGetVacancyById then (zeroVacancy, RepoFailure)
      else case find (\<lambda>r. Id r = id') (vacancies db) of
             None \<Rightarrow> (zeroVacancy, RepoFailure)
           | Some r \<Rightarrow> (r, NoError))"

definition mem_CreateSkill :: "(RepoCall \<Rightarrow> bool) \<Rightarrow> Skill \<Rightarrow> Store \<Rightarrow> Error \<times> Store" where
  "mem_CreateSkill faults row db =
     (if faults CallCreateSkill then (RepoFailure, db)
      else (NoError, db\<lparr>skills := skills db @ [row]\<rparr>))"

definition mem_ListSkillsByVacancyId ::
  "(RepoCall \<Rightarrow> bool) \<Rightarrow> Store \<Rightarrow> int \<Rightarrow> Skill list \<times> Error" where
  "mem_ListSkillsByVacancyId faults db id' =
     (if faults CallListSkillsByVacancyId then ([], RepoFailure)
      else (filter (\<lambda>r. skill_VacancyId r = id') (skills db), NoError))"

definition mem_CreateRequirement ::
  "(RepoCall \<Rightarrow> bool) \<Rightarrow> Requirement \<Rightarrow> Store \<Rightarrow> Error \<times> Store" where
  "mem_CreateRequirement faults row db =
     (if faults CallCreateRequirement then (RepoFailure, db)
      else (NoError, db\<lparr>requirements := requirements db @ [row]\<rparr>))"

definition mem_ListRequirementsByVacancyId ::
  "(RepoCall \<Rightarrow> bool) \<Rightarrow> Store \<Rightarrow> int \<Rightarrow> Requirement list \<times> Error" where
  "mem_ListRequirementsByVacancyId faults db id' =
     (if faults CallListRequirementsByVacancyId then ([], RepoFailure)
      else (filter (\<lambda>r. requirement_VacancyId r = id') (requirements db), NoError))"

definition mem_CreateResponsability ::
  "(RepoCall \<Rightarrow> bool) \<Rightarrow> Responsability \<Rightarrow> Store \<Rightarrow> Error \<times> Store" where
  "mem_CreateResponsability faults row db =
     (if faults CallCreateResponsability then (RepoFailure, db)
      else (NoError, db\<lparr>responsabilities := responsabilities db @ [row]\<rparr>))"

definition mem_ListResponsabilitiesByVacancyId ::
  "(RepoCall \<Rightarrow> bool) \<Rightarrow> Store \<Rightarrow> int \<Rightarrow> Responsability list \<times> Error" where
  "mem_ListResponsabilitiesByVacancyId faults db id' =
     (if faults CallListResponsabilitiesByVacancyId then ([], RepoFailure)
      else (filter (\<lambda>r. responsability_VacancyId r = id') (responsabilities db), NoError))"

text \<open>A join row is keyed by its two references; upserting an existing key adds no row.\<close>

definition sameJoinKey :: "VacancyDisability \<Rightarrow> VacancyDisability \<Rightarrow> bool" where
  "sameJoinKey a b = (VacancyId a = VacancyId b \<and> DisabilityId a = DisabilityId b)"

definition mem_UpsertVacancyDisability ::
  "(RepoCall \<Rightarrow> bool) \<Rightarrow> VacancyDisability \<Rightarrow> Store \<Rightarrow> Error \<times> Store" where
  "mem_UpsertVacancyDisability faults row db =
     (if faults CallUpsertVacancyDisability then (RepoFailure, db)
      else if list_ex (sameJoinKey row) (vacancy_disabilities db) then (NoError, db)
      else (NoError, db\<lparr>vacancy_disabilities := vacancy_disabilities db @ [row]\<rparr>))"

text \<open>Reading join rows attaches the referenced disability (the zero value if absent).\<close>

definition preloadDisability :: "Store \<Rightarrow> VacancyDisability \<Rightarrow> VacancyDisability" where
  "preloadDisability db row =
     row\<lparr>Disability :=
           (case find (\<lambda>d. disability_Id d = DisabilityId row) (disabilities db) of
              None \<Rightarrow> zeroDisability | Some d \<Rightarrow> d)\<rparr>"

definition mem_GetVacancyDisabilities ::
  "(RepoCall \<Rightarrow> bool) \<Rightarrow> Store \<Rightarrow> int \<Rightarrow> VacancyDisability list \<times> Error" where
  "mem_GetVacancyDisabilities faults db id' =
     (if faults CallGetVacancyDisabilities then ([], RepoFailure)
      else (map (preloadDisability db)
              (filter (\<lambda>r. VacancyId r = id') (vacancy_disabilities db)),
            NoError))"

definition memService ::
  "(RepoCall \<Rightarrow> bool) \<Rightarrow> (int \<Rightarrow> string \<Rightarrow> string \<Rightarrow> string \<Rightarrow> Vacancy \<Rightarrow> bool)
   \<Rightarrow> Store vacancyService" where
  "memService faults query =
     \<lparr>vacancyRepo =
        \<lparr>BeginTransaction = transaction,
         UpsertVacancy = mem_UpsertVacancy faults,
         repo_ListVacancies = mem_ListVacancies faults query,
         repo_GetVacancyById = mem_GetVacancyById faults\<rparr>,
      skillsRepo =
        \<lparr>CreateSkill = mem_CreateSkill faults,
         ListSkillsByVacancyId = mem_ListSkillsByVacancyId faults\<rparr>,
      requirementsRepo =
        \<lparr>CreateRequirement = mem_CreateRequirement faults,
         ListRequirementsByVacancyId = mem_ListRequirementsByVacancyId faults\<rparr>,
      responsabilitiesRepo =
        \<lparr>CreateResponsability = mem_CreateResponsability faults,
         ListResponsabilitiesByVacancyId = mem_ListResponsabilitiesByVacancyId faults\<rparr>,
      vacancyDisabilitiesRepo =
        \<lparr>UpsertVacancyDisability = mem_UpsertVacancyDisability faults,
         GetVacancyDisabilities = mem_GetVacancyDisabilities faults\<rparr>\<rparr>"

definition noFaults :: "RepoCall \<Rightarrow> bool" where
  "noFaults c = False"

definition anyVacancy :: "int \<Rightarrow> string \<Rightarrow> string \<Rightarrow> string \<Rightarrow> Vacancy \<Rightarrow> bool" where
  "anyVacancy companyId area contractType searchText r = True"


section \<open>Specification functions\<close>

text \<open>
  The spec's deduplicated list: every distinct value once, in the order of
  first appearance.
\<close>

fun firstSeen :: "'a list \<Rightarrow> 'a list" where
  "firstSeen [] = []"
| "firstSeen (x # xs) = x # firstSeen (filter (\<lambda>y. y \<noteq> x) xs)"


text \<open>
  The list of categories that \<^verbatim>\<open>ListVacancies\<close> builds for one vacancy of the
  page: the inner loop run on the join rows the repository returns for it.
\<close>

definition uniqueOf :: "'db vacancyService \<Rightarrow> 'db \<Rightarrow> Vacancy \<Rightarrow> string list" where
  "uniqueOf v db vacancy =
     uniqueDisabilitiesLoop []
       (fst (GetVacancyDisabilities (vacancyDisabilitiesRepo v) db (Id vacancy)))"

text \<open>The rows \<^verbatim>\<open>CreateVacancy\<close> hands to the repositories for vacancy \<open>vacancyId\<close>.\<close>

definition skillRow :: "int \<Rightarrow> SkillRequest \<Rightarrow> Skill" where
  "skillRow vacancyId skill = (SkillRequest_ToModel skill)\<lparr>skill_VacancyId := vacancyId\<rparr>"

definition requirementRow :: "int \<Rightarrow> RequirementRequest \<Rightarrow> Requirement" where
  "requirementRow vacancyId requirement =
     (RequirementRequest_ToModel requirement)\<lparr>requirement_VacancyId := vacancyId\<rparr>"

definition responsabilityRow :: "int \<Rightarrow> ResponsabilityRequest \<Rightarrow> Responsability" where
  "responsabilityRow vacancyId responsability =
     (ResponsabilityRequest_ToModel responsability)\<lparr>responsability_VacancyId := vacancyId\<rparr>"

definition disabilityRow :: "int \<Rightarrow> int \<Rightarrow> VacancyDisability" where
  "disabilityRow vacancyId disability =
     \<lparr>VacancyId = vacancyId, DisabilityId = disability, Disability = zeroDisability\<rparr>"

text \<open>No stored join row has the key of the row for \<open>vacancyId\<close> and \<open>disability\<close>.\<close>

definition absent :: "VacancyDisability list \<Rightarrow> int \<Rightarrow> int \<Rightarrow> bool" where
  "absent rows vacancyId disability =
     (\<not> list_ex (sameJoinKey (disabilityRow vacancyId disability)) rows)"

text \<open>Every stored join row references a stored vacancy (the foreign key of the join table).\<close>

definition joinRowsReferenced :: "Store \<Rightarrow> bool" where
  "joinRowsReferenced db =
     list_all (\<lambda>r. list_ex (\<lambda>vacancy. Id vacancy = VacancyId r) (vacancies db))
       (vacancy_disabilities db)"

text \<open>The repository calls that \<^verbatim>\<open>CreateVacancy\<close> makes for a request.\<close>

fun exercises :: "VacancyRequest \<Rightarrow> RepoCall \<Rightarrow> bool" where
  "exercises vacancy CallUpsertVacancy = True"
| "exercises vacancy CallCreateSkill = (Skills vacancy \<noteq> [])"
| "exercises vacancy CallCreateRequirement = (Requirements vacancy \<noteq> [])"
| "exercises vacancy CallCreateResponsability = (Responsabilities vacancy \<noteq> [])"
| "exercises vacancy CallUpsertVacancyDisability = (Disabilities vacancy \<noteq> [])"
| "exercises vacancy c = False"

text \<open>Example data used by the concrete instances below.\<close>

definition joinRow :: "int \<Rightarrow> int \<Rightarrow> string \<Rightarrow> VacancyDisability" where
  "joinRow v d c =
     \<lparr>VacancyId = v, DisabilityId = d, Disability = \<lparr>disability_Id = d, Category = c\<rparr>\<rparr>"

definition exampleVacancy :: "int \<Rightarrow> Vacancy" where
  "exampleVacancy i =
     \<lparr>Id = i, CompanyId = 7, ContractType = ''clt'', Area = ''it'', Description = ''developer''\<rparr>"

definition exampleCatalog :: "Disability list" where
  "exampleCatalog =
     [\<lparr>disability_Id = 1, Category = ''Visual''\<rparr>,
      \<lparr>disability_Id = 2, Category = ''Hearing''\<rparr>,
      \<lparr>disability_Id = 3, Category = ''Visual''\<rparr>]"

definition emptyStore :: Store where
  "emptyStore =
     \<lparr>vacancies = [], skills = [], requirements = [], responsabilities = [],
      vacancy_disabilities = [], disabilities = exampleCatalog\<rparr>"

definition exampleRequest :: VacancyRequest where
  "exampleRequest =
     \<lparr>request_CompanyId = 7, request_ContractType = ''clt'', request_Area = ''it'',
      request_Description = ''developer'',
      Skills = [\<lparr>skillRequest_Name = ''go''\<rparr>, \<lparr>skillRequest_Name = ''sql''\<rparr>],
      Requirements = [\<lparr>requirementRequest_Name = ''degree''\<rparr>],
      Responsabilities = [\<lparr>responsabilityRequest_Name = ''write code''\<rparr>],
      Disabilities = [1, 2, 1]\<rparr>"

text \<open>Three vacancies; only the third is tagged with a disability of category Visual.\<close>

definition pagedStore :: Store where
  "pagedStore =
     \<lparr>vacancies = [exampleVacancy 1, exampleVacancy 2, exampleVacancy 3],
      skills = [], requirements = [], responsabilities = [],
      vacancy_disabilities = [disabilityRow 1 2, disabilityRow 3 1],
      disabilities = exampleCatalog\<rparr>"

text \<open>One vacancy tagged with two disabilities of the same category.\<close>

definition twinStore :: Store where
  "twinStore =
     \<lparr>vacancies = [exampleVacancy 1],
      skills = [], requirements = [], responsabilities = [],
      vacancy_disabilities = [disabilityRow 1 1, disabilityRow 1 3],
      disabilities = exampleCatalog\<rparr>"

text \<open>The empty store after the example request has been created in it.\<close>

definition createdStore :: Store where
  "createdStore =
     \<lparr>vacancies = [exampleVacancy 1],
      skills = [\<lparr>skill_Name = ''go'', skill_VacancyId = 1\<rparr>, \<lparr>skill_Name = ''sql'', skill_VacancyId = 1\<rparr>],
      requirements = [\<lparr>requirement_Name = ''degree'', requirement_VacancyId = 1\<rparr>],
      responsabilities = [\<lparr>responsability_Name = ''write code'', responsability_VacancyId = 1\<rparr>],
      vacancy_disabilities = [disabilityRow 1 1, disabilityRow 1 2],
      disabilities = exampleCatalog\<rparr>"

definition failsAt :: "RepoCall \<Rightarrow> RepoCall \<Rightarrow> bool" where
  "failsAt c c' = (c' = c)"


section \<open>Unfolding the storage layer\<close>

lemmas mem_defs =
  memService_def mem_ListVacancies_def mem_GetVacancyDisabilities_def mem_GetVacancyById_def
  mem_UpsertVacancy_def mem_CreateSkill_def mem_CreateRequirement_def
  mem_CreateResponsability_def mem_UpsertVacancyDisability_def mem_ListSkillsByVacancyId_def
  mem_ListRequirementsByVacancyId_def mem_ListResponsabilitiesByVacancyId_def transaction_def
  noFaults_def anyVacancy_def failsAt_def paginate_def preloadDisability_def sameJoinKey_def
  nextVacancyId_def NoError_def RepoFailure_def zeroDisability_def zeroVacancy_def

lemmas example_defs =
  exampleVacancy_def exampleCatalog_def emptyStore_def exampleRequest_def pagedStore_def
  twinStore_def joinRow_def disabilityRow_def skillRow_def requirementRow_def
  responsabilityRow_def

lemmas error_defs =
  vacancyServiceError_def NewError_def NewErrorCode_def DatabaseErrorCode_def
  VacancyErrorType_def


lemmas service_defs = CreateVacancy_def createVacancyTx_def VacancyRequest_ToModel_def
  SkillRequest_ToModel_def RequirementRequest_ToModel_def ResponsabilityRequest_ToModel_def
  ListVacancies_def GetVacancyById_def UpdateVacancy_def DeleteVacancy_def existsVacancyTx_def
  ToResponse_def ToSimpleResponse_def


section \<open>Deduplication of disability categories\<close>

lemma filter_neq_notin_acc:
  "filter (\<lambda>y. y \<noteq> c) (filter (\<lambda>y. y \<notin> set acc) xs) = filter (\<lambda>y. y \<notin> set (acc @ [c])) xs"
  by (induction xs) auto

lemma uniqueDisabilitiesLoop_acc:
  "uniqueDisabilitiesLoop acc rows =
     acc @ firstSeen (filter (\<lambda>c. c \<notin> set acc) (map (\<lambda>r. Category (Disability r)) rows))"
proof (induction rows arbitrary: acc)
  case Nil
  show ?case by simp
next
  case (Cons r rows)
  show ?case using Cons.IH by (simp add: conj_commute)
qed

lemma set_firstSeen: "set (firstSeen xs) = set xs"
proof (induction xs rule: firstSeen.induct)
  case 1
  show ?case by simp
next
  case (2 x xs)
  then show ?case by auto
qed

lemma distinct_firstSeen: "distinct (firstSeen xs)"
proof (induction xs rule: firstSeen.induct)
  case 1
  show ?case by simp
next
  case (2 x xs)
  then show ?case by (simp add: set_firstSeen)
qed

lemma remdups_snoc: "remdups (ys @ [x]) = remdups (filter (\<lambda>y. y \<noteq> x) ys) @ [x]"
  by (induction ys) auto

lemma firstSeen_remdups: "firstSeen xs = rev (remdups (rev xs))"
proof (induction xs rule: firstSeen.induct)
  case 1
  show ?case by simp
next
  case (2 x xs)
  have "remdups (rev xs @ [x]) = remdups (filter (\<lambda>y. y \<noteq> x) (rev xs)) @ [x]"
    by (rule remdups_snoc)
  then show ?case using 2 by (simp add: rev_filter)
qed

lemma uniqueDisabilitiesLoop_firstSeen:
  "uniqueDisabilitiesLoop [] rows = firstSeen (map (\<lambda>r. Category (Disability r)) rows)"
  by (simp add: uniqueDisabilitiesLoop_acc)

text \<open>
  C3. For any sequence of join rows, with categories possibly repeated, the
  list that the inner loop of \<^verbatim>\<open>ListVacancies\<close> builds holds every category of
  the input exactly once, in the order of first appearance (it is the input
  with every later repetition dropped); categories are compared as strings,
  so two spellings that differ in case are two categories.
\<close>

theorem uniqueDisabilities_first_seen:
  "uniqueDisabilitiesLoop [] rows = firstSeen (map (\<lambda>r. Category (Disability r)) rows)
   \<and> uniqueDisabilitiesLoop [] rows = rev (remdups (rev (map (\<lambda>r. Category (Disability r)) rows)))
   \<and> distinct (uniqueDisabilitiesLoop [] rows)
   \<and> set (uniqueDisabilitiesLoop [] rows) = set (map (\<lambda>r. Category (Disability r)) rows)"
proof -
  let ?cs = "map (\<lambda>r. Category (Disability r)) rows"
  have a: "uniqueDisabilitiesLoop [] rows = firstSeen ?cs"
    by (rule uniqueDisabilitiesLoop_firstSeen)
  have b: "firstSeen ?cs = rev (remdups (rev ?cs))"
    by (rule firstSeen_remdups)
  have c: "distinct (firstSeen ?cs)"
    by (rule distinct_firstSeen)
  have d: "set (firstSeen ?cs) = set ?cs"
    by (rule set_firstSeen)
  show ?thesis using a b c d by simp
qed

theorem uniqueDisabilities_first_seen_witness:
  "uniqueDisabilitiesLoop []
     [joinRow 1 1 ''Visual'', joinRow 1 2 ''Hearing'', joinRow 1 3 ''visual'',
      joinRow 1 4 ''Visual'', joinRow 1 2 ''Hearing'']
   = [''Visual'', ''Hearing'', ''visual'']"
  using uniqueDisabilities_first_seen
    [of "[joinRow 1 1 ''Visual'', joinRow 1 2 ''Hearing'', joinRow 1 3 ''visual'',
          joinRow 1 4 ''Visual'', joinRow 1 2 ''Hearing'']"]
  by (simp add: joinRow_def)


section \<open>CreateVacancy: a failing call fails the transaction function\<close>

text \<open>
  Each loop stops with an error at the first call that returns a non-empty
  code, whatever the repositories are and wherever in the list the call is.
\<close>

lemma createSkills_append:
  "createSkills v vid (pre @ post) tx =
     (case createSkills v vid pre tx of
        (None, tx') \<Rightarrow> createSkills v vid post tx'
      | (Some e, tx') \<Rightarrow> (Some e, tx'))"
  by (induction pre arbitrary: tx) (simp_all add: case_prod_beta Let_def)

lemma createSkills_failing_call:
  assumes "createSkills v vid pre tx = (None, tx')"
    and "Code (fst (CreateSkill (skillsRepo v) (skillRow vid s) tx')) \<noteq> []"
  shows "fst (createSkills v vid (pre @ s # post) tx) \<noteq> None"
  using assms by (simp add: createSkills_append case_prod_beta Let_def skillRow_def)

lemma createRequirements_append:
  "createRequirements v vid (pre @ post) tx =
     (case createRequirements v vid pre tx of
        (None, tx') \<Rightarrow> createRequirements v vid post tx'
      | (Some e, tx') \<Rightarrow> (Some e, tx'))"
  by (induction pre arbitrary: tx) (simp_all add: case_prod_beta Let_def)

lemma createRequirements_failing_call:
  assumes "createRequirements v vid pre tx = (None, tx')"
    and "Code (fst (CreateRequirement (requirementsRepo v) (requirementRow vid s) tx')) \<noteq> []"
  shows "fst (createRequirements v vid (pre @ s # post) tx) \<noteq> None"
  using assms by (simp add: createRequirements_append case_prod_beta Let_def requirementRow_def)

lemma createResponsabilities_append:
  "createResponsabilities v vid (pre @ post) tx =
     (case createResponsabilities v vid pre tx of
        (None, tx') \<Rightarrow> createResponsabilities v vid post tx'
      | (Some e, tx') \<Rightarrow> (Some e, tx'))"
  by (induction pre arbitrary: tx) (simp_all add: case_prod_beta Let_def)

lemma createResponsabilities_failing_call:
  assumes "createResponsabilities v vid pre tx = (None, tx')"
    and "Code (fst (CreateResponsability (responsabilitiesRepo v) (responsabilityRow vid s) tx')) \<noteq> []"
  shows "fst (createResponsabilities v vid (pre @ s # post) tx) \<noteq> None"
  using assms by (simp add: createResponsabilities_append case_prod_beta Let_def responsabilityRow_def)

lemma createDisabilities_append:
  "createDisabilities v vid (pre @ post) tx =
     (case createDisabilities v vid pre tx of
        (None, tx') \<Rightarrow> createDisabilities v vid post tx'
      | (Some e, tx') \<Rightarrow> (Some e, tx'))"
  by (induction pre arbitrary: tx) (simp_all add: case_prod_beta Let_def)

lemma createDisabilities_failing_call:
  assumes "createDisabilities v vid pre tx = (None, tx')"
    and "Code (fst (UpsertVacancyDisability (vacancyDisabilitiesRepo v) (disabilityRow vid s) tx')) \<noteq> []"
  shows "fst (createDisabilities v vid (pre @ s # post) tx) \<noteq> None"
  using assms by (simp add: createDisabilities_append case_prod_beta Let_def disabilityRow_def)

text \<open>Any failing call makes the transaction function return an error.\<close>

lemma createVacancyTx_failing_call:
  assumes "UpsertVacancy (vacancyRepo v) m tx = ((vid, err), tx1)"
  shows "Code err \<noteq> [] \<Longrightarrow> fst (createVacancyTx v vacancy m tx) \<noteq> None"
    and "Code err = [] \<Longrightarrow> fst (createSkills v vid (Skills vacancy) tx1) \<noteq> None
           \<Longrightarrow> fst (createVacancyTx v vacancy m tx) \<noteq> None"
    and "Code err = [] \<Longrightarrow> createSkills v vid (Skills vacancy) tx1 = (None, tx2)
           \<Longrightarrow> fst (createRequirements v vid (Requirements vacancy) tx2) \<noteq> None
           \<Longrightarrow> fst (createVacancyTx v vacancy m tx) \<noteq> None"
    and "Code err = [] \<Longrightarrow> createSkills v vid (Skills vacancy) tx1 = (None, tx2)
           \<Longrightarrow> createRequirements v vid (Requirements vacancy) tx2 = (None, tx3)
           \<Longrightarrow> fst (createResponsabilities v vid (Responsabilities vacancy) tx3) \<noteq> None
           \<Longrightarrow> fst (createVacancyTx v vacancy m tx) \<noteq> None"
    and "Code err = [] \<Longrightarrow> createSkills v vid (Skills vacancy) tx1 = (None, tx2)
           \<Longrightarrow> createRequirements v vid (Requirements vacancy) tx2 = (None, tx3)
           \<Longrightarrow> createResponsabilities v vid (Responsabilities vacancy) tx3 = (None, tx4)
           \<Longrightarrow> fst (createDisabilities v vid (Disabilities vacancy) tx4) \<noteq> None
           \<Longrightarrow> fst (createVacancyTx v vacancy m tx) \<noteq> None"
  using assms
  by (auto simp add: createVacancyTx_def split: prod.splits option.splits)

section \<open>CreateVacancy on the in-memory storage layer\<close>

lemma mem_createSkills:
  "createSkills (memService faults query) vid ss tx =
     (if ss \<noteq> [] \<and> faults CallCreateSkill then (Some RepoFailure, tx)
      else (None, tx\<lparr>skills := skills tx @ map (skillRow vid) ss\<rparr>))"
proof (induction ss arbitrary: tx)
  case Nil
  show ?case by simp
next
  case (Cons s ss)
  show ?case
  proof (cases "faults CallCreateSkill")
    case True
    then show ?thesis by (simp add: memService_def mem_CreateSkill_def RepoFailure_def)
  next
    case False
    then show ?thesis using Cons.IH
      by (simp add: memService_def mem_CreateSkill_def NoError_def skillRow_def)
  qed
qed

lemma mem_createRequirements:
  "createRequirements (memService faults query) vid ss tx =
     (if ss \<noteq> [] \<and> faults CallCreateRequirement then (Some RepoFailure, tx)
      else (None, tx\<lparr>requirements := requirements tx @ map (requirementRow vid) ss\<rparr>))"
proof (induction ss arbitrary: tx)
  case Nil
  show ?case by simp
next
  case (Cons s ss)
  show ?case
  proof (cases "faults CallCreateRequirement")
    case True
    then show ?thesis by (simp add: memService_def mem_CreateRequirement_def RepoFailure_def)
  next
    case False
    then show ?thesis using Cons.IH
      by (simp add: memService_def mem_CreateRequirement_def NoError_def requirementRow_def)
  qed
qed

lemma mem_createResponsabilities:
  "createResponsabilities (memService faults query) vid ss tx =
     (if ss \<noteq> [] \<and> faults CallCreateResponsability then (Some RepoFailure, tx)
      else (None, tx\<lparr>responsabilities := responsabilities tx @ map (responsabilityRow vid) ss\<rparr>))"
proof (induction ss arbitrary: tx)
  case Nil
  show ?case by simp
next
  case (Cons s ss)
  show ?case
  proof (cases "faults CallCreateResponsability")
    case True
    then show ?thesis by (simp add: memService_def mem_CreateResponsability_def RepoFailure_def)
  next
    case False
    then show ?thesis using Cons.IH
      by (simp add: memService_def mem_CreateResponsability_def NoError_def responsabilityRow_def)
  qed
qed

lemma memService_sel:
  "BeginTransaction (vacancyRepo (memService faults query)) = transaction"
  "UpsertVacancy (vacancyRepo (memService faults query)) = mem_UpsertVacancy faults"
  "repo_ListVacancies (vacancyRepo (memService faults query)) = mem_ListVacancies faults query"
  "repo_GetVacancyById (vacancyRepo (memService faults query)) = mem_GetVacancyById faults"
  "CreateSkill (skillsRepo (memService faults query)) = mem_CreateSkill faults"
  "ListSkillsByVacancyId (skillsRepo (memService faults query)) = mem_ListSkillsByVacancyId faults"
  "CreateRequirement (requirementsRepo (memService faults query)) = mem_CreateRequirement faults"
  "ListRequirementsByVacancyId (requirementsRepo (memService faults query)) = mem_ListRequirementsByVacancyId faults"
  "CreateResponsability (responsabilitiesRepo (memService faults query)) = mem_CreateResponsability faults"
  "ListResponsabilitiesByVacancyId (responsabilitiesRepo (memService faults query)) = mem_ListResponsabilitiesByVacancyId faults"
  "UpsertVacancyDisability (vacancyDisabilitiesRepo (memService faults query)) = mem_UpsertVacancyDisability faults"
  "GetVacancyDisabilities (vacancyDisabilitiesRepo (memService faults query)) = mem_GetVacancyDisabilities faults"
  by (simp_all add: memService_def)

lemma absent_snoc:
  "absent (rows @ [disabilityRow vid d]) vid d' = (absent rows vid d' \<and> d' \<noteq> d)"
  by (auto simp: absent_def sameJoinKey_def disabilityRow_def list_ex_iff)

lemma absent_snoc_fun:
  "absent (rows @ [disabilityRow vid d]) vid = (\<lambda>d'. absent rows vid d' \<and> d' \<noteq> d)"
  by (rule ext) (rule absent_snoc)

lemma mem_upsert_row:
  "mem_UpsertVacancyDisability faults (disabilityRow vid d) tx =
     (if faults CallUpsertVacancyDisability then (RepoFailure, tx)
      else if absent (vacancy_disabilities tx) vid d
      then (NoError, tx\<lparr>vacancy_disabilities := vacancy_disabilities tx @ [disabilityRow vid d]\<rparr>)
      else (NoError, tx))"
  by (simp add: mem_UpsertVacancyDisability_def absent_def)

lemma createDisabilities_Cons:
  "createDisabilities v vid (d # ds) tx =
     (case UpsertVacancyDisability (vacancyDisabilitiesRepo v) (disabilityRow vid d) tx of
        (err, tx') \<Rightarrow> if Code err \<noteq> [] then (Some err, tx') else createDisabilities v vid ds tx')"
  by (simp add: disabilityRow_def)

lemma filter_absent_neq:
  "filter (\<lambda>y. y \<noteq> d) (filter (absent rows vid) ds) = filter (\<lambda>d'. absent rows vid d' \<and> d' \<noteq> d) ds"
  by (induction ds) auto

lemma mem_createDisabilities:
  "createDisabilities (memService faults query) vid ds tx =
     (if ds \<noteq> [] \<and> faults CallUpsertVacancyDisability then (Some RepoFailure, tx)
      else (None, tx\<lparr>vacancy_disabilities := vacancy_disabilities tx @
              map (disabilityRow vid) (firstSeen (filter (absent (vacancy_disabilities tx) vid) ds))\<rparr>))"
proof (induction ds arbitrary: tx)
  case Nil
  show ?case by simp
next
  case (Cons d ds)
  show ?case
  proof (cases "faults CallUpsertVacancyDisability")
    case True
    then show ?thesis
      by (simp only: createDisabilities_Cons memService_sel mem_upsert_row) (simp add: RepoFailure_def)
  next
    case nf: False
    show ?thesis
    proof (cases "absent (vacancy_disabilities tx) vid d")
      case False
      then show ?thesis using nf Cons.IH
        by (simp only: createDisabilities_Cons memService_sel mem_upsert_row) (simp add: NoError_def)
    next
      case True
      then show ?thesis using nf Cons.IH
        by (simp only: createDisabilities_Cons memService_sel mem_upsert_row)
           (simp add: NoError_def absent_snoc_fun filter_absent_neq)
    qed
  qed
qed



lemma ToModel_Id: "Id (VacancyRequest_ToModel vacancy) = 0"
  by (simp add: VacancyRequest_ToModel_def)

lemma mem_upsert_new:
  "Id m = 0 \<Longrightarrow> mem_UpsertVacancy faults m db =
     (if faults CallUpsertVacancy then ((0, RepoFailure), db)
      else ((nextVacancyId db, NoError),
            db\<lparr>vacancies := vacancies db @ [m\<lparr>Id := nextVacancyId db\<rparr>]\<rparr>))"
  by (simp add: mem_UpsertVacancy_def Let_def)

lemma Code_RepoFailure: "Code RepoFailure \<noteq> []"
  by (simp add: RepoFailure_def)

lemma Code_NoError: "Code NoError = []"
  by (simp add: NoError_def)

lemma Code_vacancyServiceError: "Code (vacancyServiceError message code) \<noteq> []"
  by (simp add: error_defs)

lemma mem_createVacancyTx_ok:
  assumes "\<not> faults CallUpsertVacancy"
    and "Skills vacancy = [] \<or> \<not> faults CallCreateSkill"
    and "Requirements vacancy = [] \<or> \<not> faults CallCreateRequirement"
    and "Responsabilities vacancy = [] \<or> \<not> faults CallCreateResponsability"
    and "Disabilities vacancy = [] \<or> \<not> faults CallUpsertVacancyDisability"
  shows "createVacancyTx (memService faults query) vacancy (VacancyRequest_ToModel vacancy) db =
     (None,
      db\<lparr>vacancies := vacancies db @ [(VacancyRequest_ToModel vacancy)\<lparr>Id := nextVacancyId db\<rparr>],
         skills := skills db @ map (skillRow (nextVacancyId db)) (Skills vacancy),
         requirements := requirements db @ map (requirementRow (nextVacancyId db)) (Requirements vacancy),
         responsabilities := responsabilities db @ map (responsabilityRow (nextVacancyId db)) (Responsabilities vacancy),
         vacancy_disabilities := vacancy_disabilities db @
           map (disabilityRow (nextVacancyId db))
             (firstSeen (filter (absent (vacancy_disabilities db) (nextVacancyId db)) (Disabilities vacancy)))\<rparr>)"
  using assms
  by (auto simp add: createVacancyTx_def memService_sel mem_upsert_new ToModel_Id Code_NoError
      mem_createSkills mem_createRequirements mem_createResponsabilities mem_createDisabilities)

lemma mem_createVacancyTx_fail:
  assumes "faults c" and "exercises vacancy c"
  shows "fst (createVacancyTx (memService faults query) vacancy (VacancyRequest_ToModel vacancy) db)
         = Some RepoFailure"
proof (cases "faults CallUpsertVacancy")
  case True
  then show ?thesis
    by (simp add: createVacancyTx_def memService_sel mem_upsert_new ToModel_Id Code_RepoFailure)
next
  case False
  with assms show ?thesis
    by (cases c)
       (auto simp add: createVacancyTx_def memService_sel mem_upsert_new ToModel_Id Code_NoError
          mem_createSkills mem_createRequirements mem_createResponsabilities mem_createDisabilities)
qed


lemma fold_max_ge: "fold max xs (a::int) \<ge> a"
  by (induction xs arbitrary: a) (auto intro: order_trans [OF max.cobounded2])

lemma fold_max_mem: "x \<in> set xs \<Longrightarrow> x \<le> fold max xs (a::int)"
proof (induction xs arbitrary: a)
  case Nil
  then show ?case by simp
next
  case (Cons y ys)
  show ?case
  proof (cases "x = y")
    case True
    have "max y a \<le> fold max ys (max y a)" by (rule fold_max_ge)
    with True show ?thesis by simp
  next
    case False
    with Cons show ?thesis by simp
  qed
qed

lemma nextVacancyId_fresh: "r \<in> set (vacancies db) \<Longrightarrow> Id r < nextVacancyId db"
proof -
  assume "r \<in> set (vacancies db)"
  then have "Id r \<in> set (map Id (vacancies db))" by simp
  then have "Id r \<le> fold max (map Id (vacancies db)) 0" by (rule fold_max_mem)
  then show ?thesis by (simp add: nextVacancyId_def)
qed

lemma absent_fresh:
  assumes "joinRowsReferenced db"
  shows "absent (vacancy_disabilities db) (nextVacancyId db) d"
proof -
  have ne: "VacancyId r \<noteq> nextVacancyId db" if "r \<in> set (vacancy_disabilities db)" for r
  proof -
    from assms that obtain vacancy where "vacancy \<in> set (vacancies db)" "Id vacancy = VacancyId r"
      by (auto simp: joinRowsReferenced_def list_all_iff list_ex_iff)
    with nextVacancyId_fresh [of vacancy db] show ?thesis by simp
  qed
  have "\<not> sameJoinKey (disabilityRow (nextVacancyId db) d) r"
    if "r \<in> set (vacancy_disabilities db)" for r
    using ne [OF that] by (auto simp add: sameJoinKey_def disabilityRow_def)
  then show ?thesis
    by (simp add: absent_def list_ex_iff)
qed

lemma CreateVacancy_transaction:
  assumes "BeginTransaction (vacancyRepo v) = transaction"
  shows "CreateVacancy v vacancy db =
     (case createVacancyTx v vacancy (VacancyRequest_ToModel vacancy) db of
        (None, tx) \<Rightarrow> (NoError, tx)
      | (Some e, tx) \<Rightarrow> (vacancyServiceError ''failed to create the vacancy'' ''01'', db))"
  using assms by (simp add: CreateVacancy_def transaction_def split: prod.splits option.splits)

lemma length_firstSeen: "length (firstSeen xs) = card (set xs)"
proof -
  have "card (set (firstSeen xs)) = length (firstSeen xs)"
    by (rule distinct_card) (rule distinct_firstSeen)
  then show ?thesis by (simp add: set_firstSeen)
qed

lemma mem_CreateVacancy_success:
  assumes "CreateVacancy (memService faults query) vacancy db = (err, db')"
    and "Code err = []"
  shows "db' = db\<lparr>vacancies := vacancies db @ [(VacancyRequest_ToModel vacancy)\<lparr>Id := nextVacancyId db\<rparr>],
         skills := skills db @ map (skillRow (nextVacancyId db)) (Skills vacancy),
         requirements := requirements db @ map (requirementRow (nextVacancyId db)) (Requirements vacancy),
         responsabilities := responsabilities db @ map (responsabilityRow (nextVacancyId db)) (Responsabilities vacancy),
         vacancy_disabilities := vacancy_disabilities db @
           map (disabilityRow (nextVacancyId db))
             (firstSeen (filter (absent (vacancy_disabilities db) (nextVacancyId db)) (Disabilities vacancy)))\<rparr>
       \<and> \<not> faults CallUpsertVacancy"
proof -
  let ?body = "createVacancyTx (memService faults query) vacancy (VacancyRequest_ToModel vacancy) db"
  have cv: "CreateVacancy (memService faults query) vacancy db =
     (case ?body of (None, tx) \<Rightarrow> (NoError, tx)
      | (Some e, tx) \<Rightarrow> (vacancyServiceError ''failed to create the vacancy'' ''01'', db))"
    by (rule CreateVacancy_transaction) (simp add: memService_sel)
  have nofault: "\<not> (faults c \<and> exercises vacancy c)" for c
  proof
    assume "faults c \<and> exercises vacancy c"
    then have "fst ?body = Some RepoFailure" by (intro mem_createVacancyTx_fail [of faults c]) auto
    then obtain tx where "?body = (Some RepoFailure, tx)" by (cases ?body) auto
    with cv assms(1) have "err = vacancyServiceError ''failed to create the vacancy'' ''01''" by simp
    with assms(2) show False by (simp add: Code_vacancyServiceError)
  qed
  have ok: "?body = (None,
      db\<lparr>vacancies := vacancies db @ [(VacancyRequest_ToModel vacancy)\<lparr>Id := nextVacancyId db\<rparr>],
         skills := skills db @ map (skillRow (nextVacancyId db)) (Skills vacancy),
         requirements := requirements db @ map (requirementRow (nextVacancyId db)) (Requirements vacancy),
         responsabilities := responsabilities db @ map (responsabilityRow (nextVacancyId db)) (Responsabilities vacancy),
         vacancy_disabilities := vacancy_disabilities db @
           map (disabilityRow (nextVacancyId db))
             (firstSeen (filter (absent (vacancy_disabilities db) (nextVacancyId db)) (Disabilities vacancy)))\<rparr>)"
    using nofault [of CallUpsertVacancy] nofault [of CallCreateSkill] nofault [of CallCreateRequirement]
      nofault [of CallCreateResponsability] nofault [of CallUpsertVacancyDisability]
    by (intro mem_createVacancyTx_ok) auto
  from cv assms(1) ok nofault [of CallUpsertVacancy] show ?thesis by simp
qed

text \<open>
  The foreign key of the join table is kept by \<^verbatim>\<open>CreateVacancy\<close>, and holds in
  a store without join rows.
\<close>

lemma joinRowsReferenced_CreateVacancy:
  assumes "joinRowsReferenced db"
    and "CreateVacancy (memService faults query) vacancy db = (err, db')"
  shows "joinRowsReferenced db'"
proof (cases "Code err = []")
  case True
  note s = mem_CreateVacancy_success [OF assms(2) True]
  have v: "vacancies db' = vacancies db @ [(VacancyRequest_ToModel vacancy)\<lparr>Id := nextVacancyId db\<rparr>]"
    using s by simp
  have j: "vacancy_disabilities db' = vacancy_disabilities db @
           map (disabilityRow (nextVacancyId db))
             (firstSeen (filter (absent (vacancy_disabilities db) (nextVacancyId db)) (Disabilities vacancy)))"
    using s by simp
  show ?thesis using assms(1)
    by (auto simp add: joinRowsReferenced_def v j list_all_iff list_ex_iff disabilityRow_def)
next
  case False
  have "db' = db"
    using assms(2) False
    by (auto simp add: CreateVacancy_transaction memService_sel Code_NoError
        split: prod.splits option.splits)
  with assms(1) show ?thesis by simp
qed

text \<open>
  C1. On the in-memory storage layer, in a store whose join rows all
  reference stored vacancies, a successful \<^verbatim>\<open>CreateVacancy\<close> for a request
  with N skills, M requirements, K responsibilities and D distinct disability
  tags appends exactly N skill rows, M requirement rows, K responsibility
  rows and D join rows (one per distinct tag, in first-seen order), and every
  appended row carries the identifier that \<^verbatim>\<open>UpsertVacancy\<close> returned.
\<close>

theorem CreateVacancy_inserts_rows:
  assumes "CreateVacancy (memService faults query) vacancy db = (err, db')"
    and "Code err = []"
    and "joinRowsReferenced db"
  shows "UpsertVacancy (vacancyRepo (memService faults query)) (VacancyRequest_ToModel vacancy) db
           = ((nextVacancyId db, NoError),
              db\<lparr>vacancies := vacancies db @ [(VacancyRequest_ToModel vacancy)\<lparr>Id := nextVacancyId db\<rparr>]\<rparr>)
       \<and> skills db' = skills db @ map (skillRow (nextVacancyId db)) (Skills vacancy)
       \<and> requirements db' = requirements db @ map (requirementRow (nextVacancyId db)) (Requirements vacancy)
       \<and> responsabilities db' =
           responsabilities db @ map (responsabilityRow (nextVacancyId db)) (Responsabilities vacancy)
       \<and> vacancy_disabilities db' =
           vacancy_disabilities db @ map (disabilityRow (nextVacancyId db)) (firstSeen (Disabilities vacancy))
       \<and> length (skills db') = length (skills db) + length (Skills vacancy)
       \<and> length (requirements db') = length (requirements db) + length (Requirements vacancy)
       \<and> length (responsabilities db') = length (responsabilities db) + length (Responsabilities vacancy)
       \<and> length (vacancy_disabilities db') = length (vacancy_disabilities db) + card (set (Disabilities vacancy))
       \<and> skill_VacancyId (skillRow (nextVacancyId db) s) = nextVacancyId db
       \<and> requirement_VacancyId (requirementRow (nextVacancyId db) q) = nextVacancyId db
       \<and> responsability_VacancyId (responsabilityRow (nextVacancyId db) p) = nextVacancyId db
       \<and> VacancyId (disabilityRow (nextVacancyId db) d) = nextVacancyId db"
proof -
  note s = mem_CreateVacancy_success [OF assms(1) assms(2)]
  have f: "filter (absent (vacancy_disabilities db) (nextVacancyId db)) (Disabilities vacancy) = Disabilities vacancy"
    using absent_fresh [OF assms(3)] by simp
  have u: "UpsertVacancy (vacancyRepo (memService faults query)) (VacancyRequest_ToModel vacancy) db
           = ((nextVacancyId db, NoError),
              db\<lparr>vacancies := vacancies db @ [(VacancyRequest_ToModel vacancy)\<lparr>Id := nextVacancyId db\<rparr>]\<rparr>)"
    using s by (simp add: memService_sel mem_upsert_new ToModel_Id)
  have rows: "skills db' = skills db @ map (skillRow (nextVacancyId db)) (Skills vacancy)"
    "requirements db' = requirements db @ map (requirementRow (nextVacancyId db)) (Requirements vacancy)"
    "responsabilities db' =
           responsabilities db @ map (responsabilityRow (nextVacancyId db)) (Responsabilities vacancy)"
    "vacancy_disabilities db' =
           vacancy_disabilities db @ map (disabilityRow (nextVacancyId db)) (firstSeen (Disabilities vacancy))"
    using s f by simp_all
  have ids: "skill_VacancyId (skillRow (nextVacancyId db) s) = nextVacancyId db"
    "requirement_VacancyId (requirementRow (nextVacancyId db) q) = nextVacancyId db"
    "responsability_VacancyId (responsabilityRow (nextVacancyId db) p) = nextVacancyId db"
    "VacancyId (disabilityRow (nextVacancyId db) d) = nextVacancyId db"
    by (simp_all add: skillRow_def requirementRow_def responsabilityRow_def disabilityRow_def)
  show ?thesis using u rows ids by (simp add: length_firstSeen)
qed


lemma example_create:
  "CreateVacancy (memService noFaults anyVacancy) exampleRequest emptyStore = (NoError, createdStore)"
  by (simp add: service_defs mem_defs example_defs createdStore_def)

theorem CreateVacancy_inserts_rows_witness:
  "CreateVacancy (memService noFaults anyVacancy) exampleRequest emptyStore = (NoError, createdStore)
   \<and> Code NoError = [] \<and> joinRowsReferenced emptyStore
   \<and> nextVacancyId emptyStore = 1
   \<and> length (skills createdStore) = 2 \<and> length (requirements createdStore) = 1
   \<and> length (responsabilities createdStore) = 1
   \<and> vacancy_disabilities createdStore = [disabilityRow 1 1, disabilityRow 1 2]"
proof -
  have h1: "CreateVacancy (memService noFaults anyVacancy) exampleRequest emptyStore = (NoError, createdStore)"
    by (rule example_create)
  have h2: "Code NoError = []" by (simp add: NoError_def)
  have h3: "joinRowsReferenced emptyStore" by (simp add: joinRowsReferenced_def emptyStore_def)
  have n: "nextVacancyId emptyStore = 1" by (simp add: nextVacancyId_def emptyStore_def)
  have e: "vacancy_disabilities emptyStore = []" "skills emptyStore = []" "requirements emptyStore = []"
    "responsabilities emptyStore = []"
    by (simp_all add: emptyStore_def)
  have r: "Disabilities exampleRequest = [1, 2, 1]" "length (Skills exampleRequest) = 2"
    "length (Requirements exampleRequest) = 1" "length (Responsabilities exampleRequest) = 1"
    by (simp_all add: exampleRequest_def)
  from CreateVacancy_inserts_rows [OF h1 h2 h3] h1 h2 h3 n e r show ?thesis by simp
qed

text \<open>
  C2. If any repository call inside \<^verbatim>\<open>CreateVacancy\<close> fails, the transaction
  rolls back: the store afterwards is the store before, so neither the parent
  row nor any child or join row written before the failure persists, and the
  operation returns the one creation error with code 01. First for any
  repositories under a transaction that commits on nil and rolls back
  otherwise, where a failing call is what makes the transaction function
  return an error; then on the in-memory storage layer, for a failure of any
  repository call that the request exercises.
\<close>

theorem CreateVacancy_rolls_back:
  "(BeginTransaction (vacancyRepo v) = transaction \<longrightarrow>
      fst (createVacancyTx v vacancy (VacancyRequest_ToModel vacancy) db) \<noteq> None \<longrightarrow>
      CreateVacancy v vacancy db = (vacancyServiceError ''failed to create the vacancy'' ''01'', db))
   \<and> (faults c \<longrightarrow> exercises vacancy c \<longrightarrow>
      CreateVacancy (memService faults query) vacancy store
        = (vacancyServiceError ''failed to create the vacancy'' ''01'', store))"
proof (intro conjI impI)
  assume bt: "BeginTransaction (vacancyRepo v) = transaction"
    and f: "fst (createVacancyTx v vacancy (VacancyRequest_ToModel vacancy) db) \<noteq> None"
  from f obtain e tx where "createVacancyTx v vacancy (VacancyRequest_ToModel vacancy) db = (Some e, tx)"
    by (cases "createVacancyTx v vacancy (VacancyRequest_ToModel vacancy) db") auto
  then show "CreateVacancy v vacancy db = (vacancyServiceError ''failed to create the vacancy'' ''01'', db)"
    by (simp add: CreateVacancy_transaction [OF bt])
next
  assume "faults c" and "exercises vacancy c"
  then have "fst (createVacancyTx (memService faults query) vacancy (VacancyRequest_ToModel vacancy) store)
      = Some RepoFailure"
    by (rule mem_createVacancyTx_fail)
  then obtain tx where
    "createVacancyTx (memService faults query) vacancy (VacancyRequest_ToModel vacancy) store
      = (Some RepoFailure, tx)"
    by (cases "createVacancyTx (memService faults query) vacancy (VacancyRequest_ToModel vacancy) store") auto
  then show "CreateVacancy (memService faults query) vacancy store
        = (vacancyServiceError ''failed to create the vacancy'' ''01'', store)"
    by (simp add: CreateVacancy_transaction memService_sel)
qed

lemma example_body_fails:
  "createVacancyTx (memService (failsAt CallUpsertVacancyDisability) anyVacancy) exampleRequest
         (VacancyRequest_ToModel exampleRequest) emptyStore
   = (Some RepoFailure, createdStore\<lparr>vacancy_disabilities := []\<rparr>)"
  by (simp add: service_defs mem_defs example_defs createdStore_def)

theorem CreateVacancy_rolls_back_witness:
  "failsAt CallUpsertVacancyDisability CallUpsertVacancyDisability
   \<and> exercises exampleRequest CallUpsertVacancyDisability
   \<and> BeginTransaction (vacancyRepo (memService (failsAt CallUpsertVacancyDisability) anyVacancy)) = transaction
   \<and> createVacancyTx (memService (failsAt CallUpsertVacancyDisability) anyVacancy) exampleRequest
         (VacancyRequest_ToModel exampleRequest) emptyStore
       = (Some RepoFailure, createdStore\<lparr>vacancy_disabilities := []\<rparr>)
   \<and> CreateVacancy (memService (failsAt CallUpsertVacancyDisability) anyVacancy) exampleRequest emptyStore
       = (vacancyServiceError ''failed to create the vacancy'' ''01'', emptyStore)
   \<and> vacancies emptyStore = [] \<and> skills emptyStore = []"
proof -
  have h1: "failsAt CallUpsertVacancyDisability CallUpsertVacancyDisability" by (simp add: failsAt_def)
  have h2: "exercises exampleRequest CallUpsertVacancyDisability" by (simp add: exampleRequest_def)
  have h3: "BeginTransaction (vacancyRepo (memService (failsAt CallUpsertVacancyDisability) anyVacancy)) = transaction"
    by (simp add: memService_sel)
  have h4: "fst (createVacancyTx (memService (failsAt CallUpsertVacancyDisability) anyVacancy) exampleRequest
         (VacancyRequest_ToModel exampleRequest) emptyStore) \<noteq> None"
    by (simp add: example_body_fails)
  have e: "vacancies emptyStore = []" "skills emptyStore = []" by (simp_all add: emptyStore_def)
  from CreateVacancy_rolls_back
    [of "memService (failsAt CallUpsertVacancyDisability) anyVacancy" exampleRequest emptyStore
        "failsAt CallUpsertVacancyDisability" CallUpsertVacancyDisability anyVacancy emptyStore]
    h1 h2 h3 h4 e example_body_fails
  show ?thesis by simp
qed



section \<open>ListVacancies\<close>

lemma listVacanciesLoop_Inr:
  "listVacanciesLoop v db cat acc vs = Inr rs \<Longrightarrow>
   rs = acc @ map (\<lambda>vacancy. ToSimpleResponse vacancy (uniqueOf v db vacancy))
              (filter (\<lambda>vacancy. cat = [] \<or> cat \<in> set (uniqueOf v db vacancy)) vs)"
proof (induction vs arbitrary: acc)
  case Nil
  then show ?case by simp
next
  case (Cons vacancy vs)
  obtain rows err where g: "GetVacancyDisabilities (vacancyDisabilitiesRepo v) db (Id vacancy) = (rows, err)"
    by (cases "GetVacancyDisabilities (vacancyDisabilitiesRepo v) db (Id vacancy)")
  have u: "uniqueOf v db vacancy = uniqueDisabilitiesLoop [] rows"
    by (simp add: uniqueOf_def g)
  show ?case
  proof (cases "Code err \<noteq> []")
    case True
    with Cons.prems g show ?thesis by simp
  next
    case ok: False
    show ?thesis
    proof (cases "cat \<noteq> [] \<and> cat \<notin> set (uniqueDisabilitiesLoop [] rows)")
      case True
      with Cons.prems g ok have "listVacanciesLoop v db cat acc vs = Inr rs" by simp
      from Cons.IH [OF this] True u show ?thesis by simp
    next
      case False
      with Cons.prems g ok
      have "listVacanciesLoop v db cat (acc @ [ToSimpleResponse vacancy (uniqueDisabilitiesLoop [] rows)]) vs = Inr rs"
        by auto
      from Cons.IH [OF this] False u show ?thesis by auto
    qed
  qed
qed

lemma ListVacancies_Inr:
  assumes "ListVacancies v db page perPage companyId cat area contractType searchText = Inr rs"
  shows "rs = map (\<lambda>vacancy. ToSimpleResponse vacancy (uniqueOf v db vacancy))
              (filter (\<lambda>vacancy. cat = [] \<or> cat \<in> set (uniqueOf v db vacancy))
                 (fst (repo_ListVacancies (vacancyRepo v) db page perPage companyId cat area
                        contractType searchText)))"
proof -
  obtain vacancies err where r: "repo_ListVacancies (vacancyRepo v) db page perPage companyId cat area
                        contractType searchText = (vacancies, err)"
    by (cases "repo_ListVacancies (vacancyRepo v) db page perPage companyId cat area
                        contractType searchText")
  with assms have "listVacanciesLoop v db cat [] vacancies = Inr rs"
    by (simp add: ListVacancies_def split: if_splits)
  from listVacanciesLoop_Inr [OF this] r show ?thesis by simp
qed

text \<open>
  C4. With a non-empty \<^verbatim>\<open>disabilityCategory\<close>, every summary in a successful
  \<^verbatim>\<open>ListVacancies\<close> result carries the deduplicated category list built for
  its vacancy, and that list contains the filter value: no vacancy whose
  list lacks the value is returned. Holds for any repositories.
\<close>

theorem ListVacancies_filter_sound:
  assumes "ListVacancies v db page perPage companyId disabilityCategory area contractType searchText
             = Inr rs"
    and "disabilityCategory \<noteq> []"
  shows "\<forall>r \<in> set rs. simple_Disabilities r = uniqueOf v db (simple_Vacancy r)
                     \<and> disabilityCategory \<in> set (simple_Disabilities r)"
  using ListVacancies_Inr [OF assms(1)] assms(2) by (auto simp: ToSimpleResponse_def)

lemma example_page1_all:
  "ListVacancies (memService noFaults anyVacancy) pagedStore 1 3 0 ''Visual'' [] [] []
     = Inr [ToSimpleResponse (exampleVacancy 3) [''Visual'']]"
  by (simp add: service_defs mem_defs example_defs)

theorem ListVacancies_filter_sound_witness:
  "ListVacancies (memService noFaults anyVacancy) pagedStore 1 3 0 ''Visual'' [] [] []
     = Inr [ToSimpleResponse (exampleVacancy 3) [''Visual'']]
   \<and> ''Visual'' \<noteq> []
   \<and> simple_Disabilities (ToSimpleResponse (exampleVacancy 3) [''Visual''])
       = uniqueOf (memService noFaults anyVacancy) pagedStore (exampleVacancy 3)
   \<and> ''Visual'' \<in> set (simple_Disabilities (ToSimpleResponse (exampleVacancy 3) [''Visual'']))"
proof -
  have h2: "''Visual'' \<noteq> []" by simp
  have b: "\<forall>r \<in> set [ToSimpleResponse (exampleVacancy 3) [''Visual'']].
          simple_Disabilities r
            = uniqueOf (memService noFaults anyVacancy) pagedStore (simple_Vacancy r)
          \<and> ''Visual'' \<in> set (simple_Disabilities r)"
    by (rule ListVacancies_filter_sound [OF example_page1_all h2])
  have "simple_Disabilities (ToSimpleResponse (exampleVacancy 3) [''Visual''])
          = uniqueOf (memService noFaults anyVacancy) pagedStore
              (simple_Vacancy (ToSimpleResponse (exampleVacancy 3) [''Visual'']))
        \<and> ''Visual'' \<in> set (simple_Disabilities (ToSimpleResponse (exampleVacancy 3) [''Visual'']))"
    using b by (rule bspec) simp
  moreover have "simple_Vacancy (ToSimpleResponse (exampleVacancy 3) [''Visual'']) = exampleVacancy 3"
    by (simp add: ToSimpleResponse_def)
  ultimately show ?thesis using example_page1_all h2 by metis
qed







section \<open>Create, then read\<close>

text \<open>
  C6. On the in-memory storage layer: the example request carries the tags
  1, 2, 1, of categories Visual, Hearing, Visual. Creating it in the empty
  store leaves two join rows (the repeated tag adds none), whose categories
  deduplicate to Visual, Hearing, and \<^verbatim>\<open>GetVacancyById\<close> on the new vacancy
  returns the disabilities Visual, Hearing.
\<close>

theorem create_then_get_example:
  "map (\<lambda>d. Category (Disability (preloadDisability emptyStore (disabilityRow 0 d))))
       (Disabilities exampleRequest) = [''Visual'', ''Hearing'', ''Visual'']
   \<and> CreateVacancy (memService noFaults anyVacancy) exampleRequest emptyStore = (NoError, createdStore)
   \<and> vacancy_disabilities createdStore = [disabilityRow 1 1, disabilityRow 1 2]
   \<and> uniqueDisabilitiesLoop []
        (fst (GetVacancyDisabilities (vacancyDisabilitiesRepo (memService noFaults anyVacancy))
                createdStore 1))
       = [''Visual'', ''Hearing'']
   \<and> GetVacancyById (memService noFaults anyVacancy) createdStore 1
       = Inr (ToResponse (exampleVacancy 1) [''Visual'', ''Hearing'']
                (skills createdStore) (responsabilities createdStore) (requirements createdStore))"
proof -
  have a: "map (\<lambda>d. Category (Disability (preloadDisability emptyStore (disabilityRow 0 d))))
       (Disabilities exampleRequest) = [''Visual'', ''Hearing'', ''Visual'']"
    by (simp add: mem_defs example_defs)
  have b: "vacancy_disabilities createdStore = [disabilityRow 1 1, disabilityRow 1 2]"
    by (simp add: createdStore_def)
  have c: "uniqueDisabilitiesLoop []
        (fst (GetVacancyDisabilities (vacancyDisabilitiesRepo (memService noFaults anyVacancy))
                createdStore 1))
       = [''Visual'', ''Hearing'']"
    by (simp add: mem_defs example_defs createdStore_def)
  have d: "GetVacancyById (memService noFaults anyVacancy) createdStore 1
       = Inr (ToResponse (exampleVacancy 1) [''Visual'', ''Hearing'']
                (skills createdStore) (responsabilities createdStore) (requirements createdStore))"
    by (simp add: service_defs mem_defs example_defs createdStore_def)
  from a example_create b c d show ?thesis by simp
qed

section \<open>GetVacancyById, UpdateVacancy and DeleteVacancy\<close>

lemma existsVacancyTx_unfold:
  "existsVacancyTx v id' tx =
     (if Code (snd (repo_GetVacancyById (vacancyRepo v) tx id')) \<noteq> []
      then (Some (snd (repo_GetVacancyById (vacancyRepo v) tx id')), tx) else (None, tx))"
  by (simp add: existsVacancyTx_def case_prod_beta)

lemma transaction_existsVacancyTx:
  "transaction (existsVacancyTx v id') db = existsVacancyTx v id' db"
  by (simp add: transaction_def existsVacancyTx_unfold)

lemma GetVacancyById_unfold:
  "GetVacancyById v db id' =
     (if Code (snd (repo_GetVacancyById (vacancyRepo v) db id')) \<noteq> []
      then Inl (vacancyServiceError ''failed to get the vacancy'' ''03'')
      else if Code (snd (ListSkillsByVacancyId (skillsRepo v) db id')) \<noteq> []
      then Inl (vacancyServiceError ''failed to get the skills'' ''04'')
      else if Code (snd (ListRequirementsByVacancyId (requirementsRepo v) db id')) \<noteq> []
      then Inl (vacancyServiceError ''failed to get the requirements'' ''05'')
      else if Code (snd (ListResponsabilitiesByVacancyId (responsabilitiesRepo v) db id')) \<noteq> []
      then Inl (vacancyServiceError ''failed to get the responsabilities'' ''06'')
      else if Code (snd (GetVacancyDisabilities (vacancyDisabilitiesRepo v) db id')) \<noteq> []
      then Inl (vacancyServiceError ''failed to get the disabilities'' ''07'')
      else Inr (ToResponse (fst (repo_GetVacancyById (vacancyRepo v) db id'))
                  (map (\<lambda>row. Category (Disability row))
                     (fst (GetVacancyDisabilities (vacancyDisabilitiesRepo v) db id')))
                  (fst (ListSkillsByVacancyId (skillsRepo v) db id'))
                  (fst (ListResponsabilitiesByVacancyId (responsabilitiesRepo v) db id'))
                  (fst (ListRequirementsByVacancyId (requirementsRepo v) db id'))))"
  by (simp add: GetVacancyById_def case_prod_beta)

text \<open>
  C7. Under a transaction that commits on nil and rolls back otherwise,
  \<^verbatim>\<open>UpdateVacancy\<close> and \<^verbatim>\<open>DeleteVacancy\<close> leave the store as it was, for every
  request and id; their only repository call is the lookup of the vacancy,
  whose outcome alone decides the result, and the result of
  \<^verbatim>\<open>UpdateVacancy\<close> is the same for any two requests.
\<close>

theorem Update_Delete_only_check_existence:
  assumes "BeginTransaction (vacancyRepo v) = transaction"
  shows "snd (UpdateVacancy v vacancy id' db) = db
       \<and> snd (DeleteVacancy v id' db) = db
       \<and> UpdateVacancy v vacancy id' db = UpdateVacancy v vacancy' id' db
       \<and> fst (UpdateVacancy v vacancy id' db) =
           (if Code (snd (repo_GetVacancyById (vacancyRepo v) db id')) \<noteq> []
            then vacancyServiceError ''failed to update the vacancy'' ''08'' else NoError)
       \<and> fst (DeleteVacancy v id' db) =
           (if Code (snd (repo_GetVacancyById (vacancyRepo v) db id')) \<noteq> []
            then vacancyServiceError ''failed to delete the vacancy'' ''09'' else NoError)"
  using assms
  by (simp add: UpdateVacancy_def DeleteVacancy_def transaction_existsVacancyTx
      existsVacancyTx_unfold)

theorem Update_Delete_only_check_existence_witness:
  "BeginTransaction (vacancyRepo (memService noFaults anyVacancy)) = transaction
   \<and> UpdateVacancy (memService noFaults anyVacancy) exampleRequest 1 createdStore = (NoError, createdStore)
   \<and> DeleteVacancy (memService noFaults anyVacancy) 1 createdStore = (NoError, createdStore)
   \<and> UpdateVacancy (memService noFaults anyVacancy) exampleRequest 2 createdStore
       = (vacancyServiceError ''failed to update the vacancy'' ''08'', createdStore)
   \<and> DeleteVacancy (memService noFaults anyVacancy) 2 createdStore
       = (vacancyServiceError ''failed to delete the vacancy'' ''09'', createdStore)"
proof -
  have h: "BeginTransaction (vacancyRepo (memService noFaults anyVacancy)) = transaction"
    by (simp add: memService_sel)
  have g1: "repo_GetVacancyById (vacancyRepo (memService noFaults anyVacancy)) createdStore 1
      = (exampleVacancy 1, NoError)"
    by (simp add: mem_defs example_defs createdStore_def)
  have g2: "repo_GetVacancyById (vacancyRepo (memService noFaults anyVacancy)) createdStore 2
      = (zeroVacancy, RepoFailure)"
    by (simp add: mem_defs example_defs createdStore_def)
  from Update_Delete_only_check_existence [OF h, of exampleRequest 1 createdStore exampleRequest]
    Update_Delete_only_check_existence [OF h, of exampleRequest 2 createdStore exampleRequest]
    h g1 g2
  show ?thesis by (simp add: prod_eq_iff Code_NoError Code_RepoFailure)
qed

text \<open>
  C8. When the vacancy lookup fails, \<^verbatim>\<open>GetVacancyById\<close> returns the error with
  numeric code 03; when that lookup succeeds and the skills lookup fails, the
  error with numeric code 04. The two error codes are different strings.
\<close>

theorem GetVacancyById_lookup_errors_differ:
  "(Code (snd (repo_GetVacancyById (vacancyRepo v) db id')) \<noteq> [] \<longrightarrow>
      GetVacancyById v db id' = Inl (vacancyServiceError ''failed to get the vacancy'' ''03''))
   \<and> (Code (snd (repo_GetVacancyById (vacancyRepo v) db id')) = [] \<longrightarrow>
      Code (snd (ListSkillsByVacancyId (skillsRepo v) db id')) \<noteq> [] \<longrightarrow>
      GetVacancyById v db id' = Inl (vacancyServiceError ''failed to get the skills'' ''04''))
   \<and> Code (vacancyServiceError ''failed to get the vacancy'' ''03'')
       = NewErrorCode DatabaseErrorCode VacancyErrorType ''03''
   \<and> Code (vacancyServiceError ''failed to get the skills'' ''04'')
       = NewErrorCode DatabaseErrorCode VacancyErrorType ''04''
   \<and> Code (vacancyServiceError ''failed to get the vacancy'' ''03'')
       \<noteq> Code (vacancyServiceError ''failed to get the skills'' ''04'')"
proof (intro conjI impI)
  assume "Code (snd (repo_GetVacancyById (vacancyRepo v) db id')) \<noteq> []"
  then show "GetVacancyById v db id' = Inl (vacancyServiceError ''failed to get the vacancy'' ''03'')"
    by (simp add: GetVacancyById_unfold)
next
  assume "Code (snd (repo_GetVacancyById (vacancyRepo v) db id')) = []"
    and "Code (snd (ListSkillsByVacancyId (skillsRepo v) db id')) \<noteq> []"
  then show "GetVacancyById v db id' = Inl (vacancyServiceError ''failed to get the skills'' ''04'')"
    by (simp add: GetVacancyById_unfold)
qed (simp_all add: error_defs)

theorem GetVacancyById_lookup_errors_differ_witness:
  "Code (snd (repo_GetVacancyById (vacancyRepo (memService noFaults anyVacancy)) emptyStore 5)) \<noteq> []
   \<and> GetVacancyById (memService noFaults anyVacancy) emptyStore 5
       = Inl (vacancyServiceError ''failed to get the vacancy'' ''03'')
   \<and> Code (snd (repo_GetVacancyById (vacancyRepo (memService (failsAt CallListSkillsByVacancyId) anyVacancy))
                  createdStore 1)) = []
   \<and> Code (snd (ListSkillsByVacancyId (skillsRepo (memService (failsAt CallListSkillsByVacancyId) anyVacancy))
                  createdStore 1)) \<noteq> []
   \<and> GetVacancyById (memService (failsAt CallListSkillsByVacancyId) anyVacancy) createdStore 1
       = Inl (vacancyServiceError ''failed to get the skills'' ''04'')
   \<and> Code (vacancyServiceError ''failed to get the vacancy'' ''03'') = ''database-vacancy-03''
   \<and> Code (vacancyServiceError ''failed to get the skills'' ''04'') = ''database-vacancy-04''"
proof -
  have h1: "Code (snd (repo_GetVacancyById (vacancyRepo (memService noFaults anyVacancy)) emptyStore 5)) \<noteq> []"
    by (simp add: mem_defs example_defs)
  have h2: "Code (snd (repo_GetVacancyById (vacancyRepo (memService (failsAt CallListSkillsByVacancyId) anyVacancy))
                  createdStore 1)) = []"
    by (simp add: mem_defs example_defs createdStore_def)
  have h3: "Code (snd (ListSkillsByVacancyId (skillsRepo (memService (failsAt CallListSkillsByVacancyId) anyVacancy))
                  createdStore 1)) \<noteq> []"
    by (simp add: mem_defs example_defs createdStore_def)
  have c: "Code (vacancyServiceError ''failed to get the vacancy'' ''03'') = ''database-vacancy-03''"
    "Code (vacancyServiceError ''failed to get the skills'' ''04'') = ''database-vacancy-04''"
    by (simp_all add: error_defs)
  from GetVacancyById_lookup_errors_differ [of "memService noFaults anyVacancy" emptyStore 5]
    GetVacancyById_lookup_errors_differ
      [of "memService (failsAt CallListSkillsByVacancyId) anyVacancy" createdStore 1]
    h1 h2 h3 c
  show ?thesis by simp
qed

text \<open>
  C10. \<^verbatim>\<open>GetVacancyById\<close> does not deduplicate: the disabilities of a
  successful response are the categories of the join rows the repository
  returned, one entry per row, in that order. On the in-memory storage layer
  those rows are the stored join rows of the vacancy, in storage order, so
  two rows for different disabilities of one category give that category
  twice.
\<close>

theorem GetVacancyById_keeps_duplicates:
  "(GetVacancyById v db id' = Inr response \<longrightarrow>
      response_Disabilities response
        = map (\<lambda>row. Category (Disability row))
            (fst (GetVacancyDisabilities (vacancyDisabilitiesRepo v) db id')))
   \<and> (\<not> faults CallGetVacancyDisabilities \<longrightarrow>
      fst (GetVacancyDisabilities (vacancyDisabilitiesRepo (memService faults query)) store id')
        = map (preloadDisability store)
            (filter (\<lambda>row. VacancyId row = id') (vacancy_disabilities store)))"
proof (intro conjI impI)
  assume "GetVacancyById v db id' = Inr response"
  then show "response_Disabilities response
        = map (\<lambda>row. Category (Disability row))
            (fst (GetVacancyDisabilities (vacancyDisabilitiesRepo v) db id'))"
    by (auto simp add: GetVacancyById_unfold ToResponse_def split: if_splits)
next
  assume "\<not> faults CallGetVacancyDisabilities"
  then show "fst (GetVacancyDisabilities (vacancyDisabilitiesRepo (memService faults query)) store id')
        = map (preloadDisability store)
            (filter (\<lambda>row. VacancyId row = id') (vacancy_disabilities store))"
    by (simp add: memService_sel mem_GetVacancyDisabilities_def)
qed

lemma example_twin:
  "GetVacancyById (memService noFaults anyVacancy) twinStore 1
     = Inr (ToResponse (exampleVacancy 1) [''Visual'', ''Visual''] [] [] [])"
  by (simp add: service_defs mem_defs example_defs)

theorem GetVacancyById_keeps_duplicates_witness:
  "GetVacancyById (memService noFaults anyVacancy) twinStore 1
     = Inr (ToResponse (exampleVacancy 1) [''Visual'', ''Visual''] [] [] [])
   \<and> \<not> noFaults CallGetVacancyDisabilities
   \<and> vacancy_disabilities twinStore = [disabilityRow 1 1, disabilityRow 1 3]
   \<and> fst (GetVacancyDisabilities (vacancyDisabilitiesRepo (memService noFaults anyVacancy)) twinStore 1)
       = [joinRow 1 1 ''Visual'', joinRow 1 3 ''Visual'']
   \<and> response_Disabilities (ToResponse (exampleVacancy 1) [''Visual'', ''Visual''] [] [] [])
       = [''Visual'', ''Visual'']"
proof -
  have h: "\<not> noFaults CallGetVacancyDisabilities" by (simp add: noFaults_def)
  have t: "vacancy_disabilities twinStore = [disabilityRow 1 1, disabilityRow 1 3]"
    by (simp add: twinStore_def)
  have p: "map (preloadDisability twinStore) [disabilityRow 1 1, disabilityRow 1 3]
      = [joinRow 1 1 ''Visual'', joinRow 1 3 ''Visual'']"
    by (simp add: mem_defs example_defs)
  have f: "filter (\<lambda>row. VacancyId row = 1) [disabilityRow 1 1, disabilityRow 1 3]
      = [disabilityRow 1 1, disabilityRow 1 3]"
    by (simp add: disabilityRow_def)
  have r: "response_Disabilities (ToResponse (exampleVacancy 1) [''Visual'', ''Visual''] [] [] [])
       = [''Visual'', ''Visual'']"
    by (simp add: ToResponse_def)
  from GetVacancyById_keeps_duplicates
    [of "memService noFaults anyVacancy" twinStore 1
        "ToResponse (exampleVacancy 1) [''Visual'', ''Visual''] [] [] []" noFaults anyVacancy twinStore]
    example_twin h t p f r
  show ?thesis by simp
qed



section \<open>Error codes\<close>

lemma listVacanciesLoop_Inl:
  "listVacanciesLoop v db cat acc vs = Inl e \<Longrightarrow>
   e = vacancyServiceError ''failed to get the disabilities'' ''03''"
proof (induction vs arbitrary: acc)
  case Nil
  then show ?case by simp
next
  case (Cons vacancy vs)
  then show ?case
    by (auto simp add: case_prod_beta Let_def split: if_splits)
qed

lemma ListVacancies_Inl:
  assumes "ListVacancies v db page perPage companyId cat area contractType searchText = Inl e"
  shows "if Code (snd (repo_ListVacancies (vacancyRepo v) db page perPage companyId cat area
                         contractType searchText)) \<noteq> []
         then e = vacancyServiceError ''failed to list the vacancies'' ''02''
         else e = vacancyServiceError ''failed to get the disabilities'' ''03''"
  using assms
  by (auto simp add: ListVacancies_def case_prod_beta dest: listVacanciesLoop_Inl split: if_splits)

lemma CreateVacancy_error:
  "Code (fst (CreateVacancy v vacancy db)) \<noteq> [] \<Longrightarrow>
   fst (CreateVacancy v vacancy db) = vacancyServiceError ''failed to create the vacancy'' ''01''"
  by (simp add: CreateVacancy_def case_prod_beta Let_def Code_NoError split: if_splits)

lemma UpdateVacancy_error:
  "Code (fst (UpdateVacancy v vacancy id' db)) \<noteq> [] \<Longrightarrow>
   fst (UpdateVacancy v vacancy id' db) = vacancyServiceError ''failed to update the vacancy'' ''08''"
  by (simp add: UpdateVacancy_def case_prod_beta Let_def Code_NoError split: if_splits)

lemma DeleteVacancy_error:
  "Code (fst (DeleteVacancy v id' db)) \<noteq> [] \<Longrightarrow>
   fst (DeleteVacancy v id' db) = vacancyServiceError ''failed to delete the vacancy'' ''09''"
  by (simp add: DeleteVacancy_def case_prod_beta Let_def Code_NoError split: if_splits)

lemma GetVacancyById_Inl:
  assumes "GetVacancyById v db id' = Inl e"
  shows "e =
     (if Code (snd (repo_GetVacancyById (vacancyRepo v) db id')) \<noteq> []
      then vacancyServiceError ''failed to get the vacancy'' ''03''
      else if Code (snd (ListSkillsByVacancyId (skillsRepo v) db id')) \<noteq> []
      then vacancyServiceError ''failed to get the skills'' ''04''
      else if Code (snd (ListRequirementsByVacancyId (requirementsRepo v) db id')) \<noteq> []
      then vacancyServiceError ''failed to get the requirements'' ''05''
      else if Code (snd (ListResponsabilitiesByVacancyId (responsabilitiesRepo v) db id')) \<noteq> []
      then vacancyServiceError ''failed to get the responsabilities'' ''06''
      else vacancyServiceError ''failed to get the disabilities'' ''07'')"
  using assms by (simp add: GetVacancyById_unfold split: if_splits)

lemma Code_vacancyServiceError_eq:
  "Code (vacancyServiceError message code) = NewErrorCode DatabaseErrorCode VacancyErrorType code"
  by (simp add: vacancyServiceError_def NewError_def)

lemma Code_vacancyServiceError_inj:
  "Code (vacancyServiceError message code) = Code (vacancyServiceError message' code')
     \<longleftrightarrow> code = code'"
  by (simp add: vacancyServiceError_def NewError_def NewErrorCode_def)

text \<open>
  C9, as amended. Every failure a vacancy-service operation returns is built
  by \<^verbatim>\<open>vacancyServiceError\<close>: its code joins the category "database", the
  entity tag "vacancy" and a two-digit number, and two such codes are equal
  only if the numbers are. The number is fixed by the place in the service
  that returns the failure, not by the repository call that failed:
  \<^verbatim>\<open>CreateVacancy\<close> returns 01 whichever call inside its transaction failed,
  \<^verbatim>\<open>UpdateVacancy\<close> 08 and \<^verbatim>\<open>DeleteVacancy\<close> 09; \<^verbatim>\<open>ListVacancies\<close> returns 02
  when the page lookup fails and another number when a disabilities lookup
  fails; \<^verbatim>\<open>GetVacancyById\<close> returns 03, 04, 05, 06, 07 for the first of its
  vacancy, skills, requirements, responsibilities and disabilities lookups
  that fails.
\<close>

theorem service_errors_name_the_return_site:
  "(Code (fst (CreateVacancy v vacancy db)) \<noteq> [] \<longrightarrow>
      fst (CreateVacancy v vacancy db) = vacancyServiceError ''failed to create the vacancy'' ''01'')
   \<and> (Code (fst (UpdateVacancy v vacancy id' db)) \<noteq> [] \<longrightarrow>
      fst (UpdateVacancy v vacancy id' db) = vacancyServiceError ''failed to update the vacancy'' ''08'')
   \<and> (Code (fst (DeleteVacancy v id' db)) \<noteq> [] \<longrightarrow>
      fst (DeleteVacancy v id' db) = vacancyServiceError ''failed to delete the vacancy'' ''09'')
   \<and> (ListVacancies v db page perPage companyId category area contractType searchText = Inl e \<longrightarrow>
      (if Code (snd (repo_ListVacancies (vacancyRepo v) db page perPage companyId category area
                       contractType searchText)) \<noteq> []
       then e = vacancyServiceError ''failed to list the vacancies'' ''02''
       else \<exists>code. e = vacancyServiceError ''failed to get the disabilities'' code \<and> code \<noteq> ''02''))
   \<and> (GetVacancyById v db id' = Inl e' \<longrightarrow> e' =
      (if Code (snd (repo_GetVacancyById (vacancyRepo v) db id')) \<noteq> []
       then vacancyServiceError ''failed to get the vacancy'' ''03''
       else if Code (snd (ListSkillsByVacancyId (skillsRepo v) db id')) \<noteq> []
       then vacancyServiceError ''failed to get the skills'' ''04''
       else if Code (snd (ListRequirementsByVacancyId (requirementsRepo v) db id')) \<noteq> []
       then vacancyServiceError ''failed to get the requirements'' ''05''
       else if Code (snd (ListResponsabilitiesByVacancyId (responsabilitiesRepo v) db id')) \<noteq> []
       then vacancyServiceError ''failed to get the responsabilities'' ''06''
       else vacancyServiceError ''failed to get the disabilities'' ''07''))
   \<and> Code (vacancyServiceError message code) = NewErrorCode DatabaseErrorCode VacancyErrorType code
   \<and> (Code (vacancyServiceError message code) = Code (vacancyServiceError message' code')
        \<longleftrightarrow> code = code')"
proof (intro conjI impI)
  assume a: "ListVacancies v db page perPage companyId category area contractType searchText = Inl e"
  show "if Code (snd (repo_ListVacancies (vacancyRepo v) db page perPage companyId category area
                       contractType searchText)) \<noteq> []
       then e = vacancyServiceError ''failed to list the vacancies'' ''02''
       else \<exists>code. e = vacancyServiceError ''failed to get the disabilities'' code \<and> code \<noteq> ''02''"
    using ListVacancies_Inl [OF a] by (auto split: if_splits)
next
  assume "GetVacancyById v db id' = Inl e'"
  then show "e' =
      (if Code (snd (repo_GetVacancyById (vacancyRepo v) db id')) \<noteq> []
       then vacancyServiceError ''failed to get the vacancy'' ''03''
       else if Code (snd (ListSkillsByVacancyId (skillsRepo v) db id')) \<noteq> []
       then vacancyServiceError ''failed to get the skills'' ''04''
       else if Code (snd (ListRequirementsByVacancyId (requirementsRepo v) db id')) \<noteq> []
       then vacancyServiceError ''failed to get the requirements'' ''05''
       else if Code (snd (ListResponsabilitiesByVacancyId (responsabilitiesRepo v) db id')) \<noteq> []
       then vacancyServiceError ''failed to get the responsabilities'' ''06''
       else vacancyServiceError ''failed to get the disabilities'' ''07'')"
    by (rule GetVacancyById_Inl)
next
  show "Code (vacancyServiceError message code) = NewErrorCode DatabaseErrorCode VacancyErrorType code"
    by (rule Code_vacancyServiceError_eq)
next
  show "(Code (vacancyServiceError message code) = Code (vacancyServiceError message' code'))
          = (code = code')"
    by (rule Code_vacancyServiceError_inj)
qed (erule CreateVacancy_error UpdateVacancy_error DeleteVacancy_error)+


lemma example_fail_upsert:
  "createVacancyTx (memService (failsAt CallUpsertVacancy) anyVacancy) exampleRequest
     (VacancyRequest_ToModel exampleRequest) emptyStore = (Some RepoFailure, emptyStore)"
  by (simp add: service_defs mem_defs example_defs)

lemma example_fail_skill:
  "createVacancyTx (memService (failsAt CallCreateSkill) anyVacancy) exampleRequest
     (VacancyRequest_ToModel exampleRequest) emptyStore
   = (Some RepoFailure, emptyStore\<lparr>vacancies := [exampleVacancy 1]\<rparr>)"
  by (simp add: service_defs mem_defs example_defs)

text \<open>
  C9, as stated, fails: in \<^verbatim>\<open>CreateVacancy\<close> a failure of the vacancy upsert
  (nothing written yet) and a failure of the first skill insert (the vacancy
  row already written inside the transaction) are failures at two call
  sites, and both return the numeric code 01.
\<close>

theorem call_sites_share_code_counterexample:
  "createVacancyTx (memService (failsAt CallUpsertVacancy) anyVacancy) exampleRequest
     (VacancyRequest_ToModel exampleRequest) emptyStore = (Some RepoFailure, emptyStore)
   \<and> createVacancyTx (memService (failsAt CallCreateSkill) anyVacancy) exampleRequest
       (VacancyRequest_ToModel exampleRequest) emptyStore
     = (Some RepoFailure, emptyStore\<lparr>vacancies := [exampleVacancy 1]\<rparr>)
   \<and> Code (fst (CreateVacancy (memService (failsAt CallUpsertVacancy) anyVacancy)
                  exampleRequest emptyStore)) = ''database-vacancy-01''
   \<and> Code (fst (CreateVacancy (memService (failsAt CallCreateSkill) anyVacancy)
                  exampleRequest emptyStore)) = ''database-vacancy-01''
   \<and> \<not> (Code (fst (CreateVacancy (memService (failsAt CallUpsertVacancy) anyVacancy)
                      exampleRequest emptyStore))
        \<noteq> Code (fst (CreateVacancy (memService (failsAt CallCreateSkill) anyVacancy)
                      exampleRequest emptyStore)))"
proof -
  have a: "CreateVacancy (memService (failsAt CallUpsertVacancy) anyVacancy) exampleRequest emptyStore
      = (vacancyServiceError ''failed to create the vacancy'' ''01'', emptyStore)"
    by (simp add: CreateVacancy_transaction memService_sel example_fail_upsert)
  have b: "CreateVacancy (memService (failsAt CallCreateSkill) anyVacancy) exampleRequest emptyStore
      = (vacancyServiceError ''failed to create the vacancy'' ''01'', emptyStore)"
    by (simp add: CreateVacancy_transaction memService_sel example_fail_skill)
  have c: "Code (vacancyServiceError ''failed to create the vacancy'' ''01'') = ''database-vacancy-01''"
    by (simp add: error_defs)
  from a b c example_fail_upsert example_fail_skill show ?thesis by simp
qed


lemma example_list_page_fails:
  "ListVacancies (memService (failsAt CallListVacancies) anyVacancy) pagedStore 1 2 0 [] [] [] []
     = Inl (vacancyServiceError ''failed to list the vacancies'' ''02'')"
  by (simp add: service_defs mem_defs example_defs)

lemma example_list_disabilities_fail:
  "isl (ListVacancies (memService (failsAt CallGetVacancyDisabilities) anyVacancy) pagedStore
          1 2 0 [] [] [] [])
   \<and> Code (snd (repo_ListVacancies (vacancyRepo (memService (failsAt CallGetVacancyDisabilities)
                    anyVacancy)) pagedStore 1 2 0 [] [] [] [])) = []"
  by (simp add: service_defs mem_defs example_defs)

lemma example_get_disabilities_fail:
  "GetVacancyById (memService (failsAt CallGetVacancyDisabilities) anyVacancy) createdStore 1
     = Inl (vacancyServiceError ''failed to get the disabilities'' ''07'')"
  by (simp add: service_defs mem_defs example_defs createdStore_def)

lemma example_missing_vacancy:
  "repo_GetVacancyById (vacancyRepo (memService (failsAt CallCreateSkill) anyVacancy)) emptyStore 9
     = (zeroVacancy, RepoFailure)"
  by (simp add: mem_defs example_defs)

text \<open>
  The amended statement at concrete failures: a failing skill insert, a
  missing vacancy for update and delete, a failing page lookup, a failing
  disabilities lookup in the list operation and in the read operation.
\<close>

theorem service_errors_name_the_return_site_witness:
  "fst (CreateVacancy (memService (failsAt CallCreateSkill) anyVacancy) exampleRequest emptyStore)
     = vacancyServiceError ''failed to create the vacancy'' ''01''
   \<and> fst (UpdateVacancy (memService (failsAt CallCreateSkill) anyVacancy) exampleRequest 9 emptyStore)
     = vacancyServiceError ''failed to update the vacancy'' ''08''
   \<and> fst (DeleteVacancy (memService (failsAt CallCreateSkill) anyVacancy) 9 emptyStore)
     = vacancyServiceError ''failed to delete the vacancy'' ''09''
   \<and> ListVacancies (memService (failsAt CallListVacancies) anyVacancy) pagedStore 1 2 0 [] [] [] []
     = Inl (vacancyServiceError ''failed to list the vacancies'' ''02'')
   \<and> isl (ListVacancies (memService (failsAt CallGetVacancyDisabilities) anyVacancy) pagedStore
            1 2 0 [] [] [] [])
   \<and> Message (projl (ListVacancies (memService (failsAt CallGetVacancyDisabilities) anyVacancy)
                        pagedStore 1 2 0 [] [] [] []))
     = ''failed to get the disabilities''
   \<and> Code (projl (ListVacancies (memService (failsAt CallGetVacancyDisabilities) anyVacancy)
                     pagedStore 1 2 0 [] [] [] []))
     \<noteq> Code (vacancyServiceError ''failed to list the vacancies'' ''02'')
   \<and> GetVacancyById (memService (failsAt CallGetVacancyDisabilities) anyVacancy) createdStore 1
     = Inl (vacancyServiceError ''failed to get the disabilities'' ''07'')
   \<and> Code (vacancyServiceError ''failed to create the vacancy'' ''01'')
     = NewErrorCode DatabaseErrorCode VacancyErrorType ''01''
   \<and> NewErrorCode DatabaseErrorCode VacancyErrorType ''01'' = ''database-vacancy-01''"
proof -
  let ?v = "memService (failsAt CallCreateSkill) anyVacancy"
  let ?w = "memService (failsAt CallGetVacancyDisabilities) anyVacancy"
  let ?l = "ListVacancies ?w pagedStore 1 2 0 [] [] [] []"
  have c: "Code (fst (CreateVacancy ?v exampleRequest emptyStore)) \<noteq> []"
    by (simp add: CreateVacancy_transaction memService_sel example_fail_skill
        Code_vacancyServiceError)
  have t: "BeginTransaction (vacancyRepo ?v) = transaction"
    by (simp add: memService_sel)
  have u: "Code (fst (UpdateVacancy ?v exampleRequest 9 emptyStore)) \<noteq> []"
    by (simp add: UpdateVacancy_def t transaction_existsVacancyTx existsVacancyTx_unfold
        example_missing_vacancy Code_RepoFailure Code_vacancyServiceError)
  have d: "Code (fst (DeleteVacancy ?v 9 emptyStore)) \<noteq> []"
    by (simp add: DeleteVacancy_def t transaction_existsVacancyTx existsVacancyTx_unfold
        example_missing_vacancy Code_RepoFailure Code_vacancyServiceError)
  from example_list_disabilities_fail obtain e where l: "?l = Inl e"
    by (cases ?l) auto
  have n: "NewErrorCode DatabaseErrorCode VacancyErrorType ''01'' = ''database-vacancy-01''"
    by (simp add: error_defs)
  note first = service_errors_name_the_return_site
    [where v = ?v and vacancy = exampleRequest and db = emptyStore and id' = 9]
  note second = service_errors_name_the_return_site
    [where v = ?w and db = pagedStore and page = 1 and perPage = 2 and companyId = 0
       and category = "[]" and area = "[]" and contractType = "[]" and searchText = "[]"
       and e = e]
  note listed = second [THEN conjunct2, THEN conjunct2, THEN conjunct2, THEN conjunct1]
  from listed l example_list_disabilities_fail
  obtain code where e: "e = vacancyServiceError ''failed to get the disabilities'' code"
    and ne: "code \<noteq> ''02''"
    by auto
  have m: "Message e = ''failed to get the disabilities''"
    by (simp add: e vacancyServiceError_def NewError_def)
  have k: "Code e \<noteq> Code (vacancyServiceError ''failed to list the vacancies'' ''02'')"
    using ne by (simp add: e Code_vacancyServiceError_inj)
  from first c u d example_list_page_fails example_get_disabilities_fail l m k n
  show ?thesis by (simp add: Code_vacancyServiceError_eq)
qed


end
